theory Spec2Isabelle
  imports Main "HOL-Library.AList"
begin

section \<open>JavaScript values\<close>

text \<open>
  The values an option can hold: what a JSON or JavaScript configuration file and a
  runtime option bag carry. Numbers are the integers and NaN (of a number only its
  truthiness is ever inspected by the configuration code). A plain object is its list of
  own enumerable properties in insertion order, read through \<open>map_of\<close>; an array is
  its elements together with the named properties written onto it; a function is an
  opaque identity together with its named properties.
\<close>

datatype jsval =
    JUndefined
  | JNull
  | JBool bool
  | JNum int
  | JNaN
  | JStr string
  | JArr "jsval list" "(string \<times> jsval) list"
  | JObj "(string \<times> jsval) list"
  | JFn nat "(string \<times> jsval) list"

datatype error =
    GeneralError string string
  | TypeError
  | CollaboratorError string

text \<open>JavaScript truthiness: what \<open>!!v\<close>, \<open>if (v)\<close> and \<open>v || d\<close> test.\<close>

fun truthy :: "jsval \<Rightarrow> bool" where
  "truthy JUndefined = False"
| "truthy JNull = False"
| "truthy (JBool b) = b"
| "truthy (JNum n) = (n \<noteq> 0)"
| "truthy JNaN = False"
| "truthy (JStr s) = (s \<noteq> [])"
| "truthy (JArr xs ps) = True"
| "truthy (JObj ps) = True"
| "truthy (JFn f ps) = True"

text \<open>
  Reading and writing a named (non-index) property, in strict mode as class bodies are:
  reading from \<open>undefined\<close> or \<open>null\<close> throws, reading a name a value does not
  have gives \<open>undefined\<close>, and writing to a primitive throws.
\<close>

fun get_prop :: "jsval \<Rightarrow> string \<Rightarrow> error + jsval" where
  "get_prop JUndefined k = Inl TypeError"
| "get_prop JNull k = Inl TypeError"
| "get_prop (JObj ps) k = Inr (case map_of ps k of None \<Rightarrow> JUndefined | Some v \<Rightarrow> v)"
| "get_prop (JArr xs ps) k = Inr (case map_of ps k of None \<Rightarrow> JUndefined | Some v \<Rightarrow> v)"
| "get_prop (JFn f ps) k = Inr (case map_of ps k of None \<Rightarrow> JUndefined | Some v \<Rightarrow> v)"
| "get_prop v k = Inr JUndefined"

fun set_prop :: "jsval \<Rightarrow> string \<Rightarrow> jsval \<Rightarrow> error + jsval" where
  "set_prop (JObj ps) k x = Inr (JObj (AList.update k x ps))"
| "set_prop (JArr xs ps) k x = Inr (JArr xs (AList.update k x ps))"
| "set_prop (JFn f ps) k x = Inr (JFn f (AList.update k x ps))"
| "set_prop v k x = Inl TypeError"

text \<open>Decimal spelling of an array index, as a property key.\<close>

function dec :: "nat \<Rightarrow> string" where
  "dec n = (if n < 10 then [''0123456789'' ! n] else dec (n div 10) @ [''0123456789'' ! (n mod 10)])"
  by pat_completeness auto
termination
  by (relation "measure id") auto

text \<open>
  The own enumerable properties \<open>Object.assign\<close> copies from a source: none for
  \<open>undefined\<close>, \<open>null\<close>, booleans and numbers; the indexed characters of a string;
  the indexed elements of an array, then its named properties.
\<close>

fun ownEnumerable :: "jsval \<Rightarrow> (string \<times> jsval) list" where
  "ownEnumerable (JObj ps) = AList.clearjunk ps"
| "ownEnumerable (JArr xs ps) = zip (map dec [0..<length xs]) xs @ AList.clearjunk ps"
| "ownEnumerable (JFn f ps) = AList.clearjunk ps"
| "ownEnumerable (JStr s) = zip (map dec [0..<length s]) (map (\<lambda>c. JStr [c]) s)"
| "ownEnumerable v = []"

definition Object_assign :: "(string \<times> jsval) list \<Rightarrow> jsval \<Rightarrow> jsval" where
  "Object_assign target source = JObj (fold (\<lambda>(k, v). AList.update k v) (ownEnumerable source) target)"

subsection \<open>lodash\<close>

definition castArray :: "jsval \<Rightarrow> jsval" where
  "castArray v = (case v of JArr xs ps \<Rightarrow> v | _ \<Rightarrow> JArr [v] [])"

text \<open>
  \<open>flatten\<close> is \<open>baseFlatten\<close> at depth 1: an element that is an array has its
  elements pushed onto the result, any other element is pushed itself.
\<close>

fun baseFlatten :: "jsval list \<Rightarrow> jsval list \<Rightarrow> jsval list" where
  "baseFlatten [] result = result"
| "baseFlatten (JArr xs ps # vs) result = baseFlatten vs (result @ xs)"
| "baseFlatten (v # vs) result = baseFlatten vs (result @ [v])"

definition flatten :: "jsval list \<Rightarrow> jsval" where
  "flatten array = JArr (baseFlatten array []) []"

subsection \<open>Promise.all\<close>

text \<open>
  Each promise has settled to \<open>Inr v\<close> (fulfilled) or \<open>Inl e\<close> (rejected).
  \<open>Promise.all\<close> is fulfilled with all the values, in the order of the promises,
  when every promise is fulfilled; it is rejected with the reason of the promise
  that rejects first in time, which may be any of the rejected ones.
\<close>

inductive Promise_all :: "(error + 'a) list \<Rightarrow> (error + 'a list) \<Rightarrow> bool" where
  fulfilled: "Promise_all (map Inr vs) (Inr vs)"
| rejected: "Inl e \<in> set rs \<Longrightarrow> Promise_all rs (Inl e)"

code_pred Promise_all .

section \<open>The option store\<close>

text \<open>
  Modelled from the spec: the base class \<open>Configuration\<close>, its \<open>Option\<close> and
  \<open>OptionSource\<close> are imported by the source and are not part of it. An option is a
  value with the source that set it; the sources are ordered
  \<open>Default < Configuration < DirectlySet\<close>.
\<close>

datatype OptionSource = Default | Configuration | DirectlySet

fun precedence :: "OptionSource \<Rightarrow> nat" where
  "precedence Default = 0"
| "precedence Configuration = 1"
| "precedence DirectlySet = 2"

record opt =
  val :: jsval
  source :: OptionSource

text \<open>
  The fields of a resolver: the option set \<open>_options\<close>, the override record
  \<open>_overriddenOptions\<close>, the candidate configuration-file paths handed to the base
  constructor, \<open>_isExplicitConfig\<close>, and the warnings written to the console so far.
\<close>

record conf =
  options :: "string \<rightharpoonup> opt"
  overriddenOptions :: "string list"
  filePaths :: "string list"
  isExplicitConfig :: bool
  console :: "string list"

text \<open>A method either returns, or throws and leaves the resolver as it was at the throw.\<close>

datatype outcome = Done conf | Failed error conf

text \<open>
  The collaborators and constants the source imports: the file system and the
  configuration-file reader behind the base class, the browser provider pool, the option
  normalizers of \<open>utils\<close>, the message helpers, and the default values.
\<close>

record env =
  CONFIGURATION_EXTENSIONS :: "string list"
  fileExists :: "string \<Rightarrow> bool"
  readConfigurationFile :: "string \<Rightarrow> error + (string \<times> jsval) list"
  browserProviderPool_getBrowserInfo :: "jsval \<Rightarrow> error + jsval"
  getSSLOptions :: "jsval \<Rightarrow> error + jsval"
  getGrepOptions :: "string \<Rightarrow> jsval \<Rightarrow> error + jsval"
  getFilterFn :: "jsval \<Rightarrow> error + jsval"
  utils_prepareReporters :: "jsval \<Rightarrow> error + jsval"
  getConcatenatedValuesString :: "string list \<Rightarrow> string"
  getPluralSuffix :: "string list \<Rightarrow> string"
  renderTemplate :: "string \<Rightarrow> string \<Rightarrow> string \<Rightarrow> string"
  configOptionsWereOverridden :: string
  resolvePathRelativelyCwd :: "string \<Rightarrow> string"
  DEFAULT_TIMEOUT_selector :: jsval
  DEFAULT_TIMEOUT_assertion :: jsval
  DEFAULT_TIMEOUT_pageLoad :: jsval
  DEFAULT_SPEED_VALUE :: jsval
  DEFAULT_APP_INIT_DELAY :: jsval
  DEFAULT_CONCURRENCY_VALUE :: jsval
  DEFAULT_SOURCE_DIRECTORIES :: jsval
  DEFAULT_DEVELOPMENT_MODE :: jsval
  DEFAULT_RETRY_TEST_PAGES :: jsval
  DEFAULT_DISABLE_HTTP2 :: jsval
  DEFAULT_PROXYLESS :: jsval
  DEFAULT_SCREENSHOT_THUMBNAILS :: bool
  getDefaultCompilerOptions :: jsval

text \<open>
  Modelled from the spec: the tables \<open>OPTION_NAMES\<close> and
  \<open>RUNTIME_ERRORS\<close> and the enumeration \<open>CustomizableCompilers\<close> are not in
  the source; each name is spelled as the identifier that selects it.
\<close>

abbreviation (input) "OPTION_NAMES_skipJsErrors \<equiv> ''skipJsErrors''"
abbreviation (input) "OPTION_NAMES_debugMode \<equiv> ''debugMode''"
abbreviation (input) "OPTION_NAMES_debugOnFail \<equiv> ''debugOnFail''"
abbreviation (input) "OPTION_NAMES_skipUncaughtErrors \<equiv> ''skipUncaughtErrors''"
abbreviation (input) "OPTION_NAMES_stopOnFirstFail \<equiv> ''stopOnFirstFail''"
abbreviation (input) "OPTION_NAMES_takeScreenshotsOnFails \<equiv> ''takeScreenshotsOnFails''"
abbreviation (input) "OPTION_NAMES_disablePageCaching \<equiv> ''disablePageCaching''"
abbreviation (input) "OPTION_NAMES_disablePageReloads \<equiv> ''disablePageReloads''"
abbreviation (input) "OPTION_NAMES_disableScreenshots \<equiv> ''disableScreenshots''"
abbreviation (input) "OPTION_NAMES_disableMultipleWindows \<equiv> ''disableMultipleWindows''"
abbreviation (input) "OPTION_NAMES_developmentMode \<equiv> ''developmentMode''"
abbreviation (input) "OPTION_NAMES_retryTestPages \<equiv> ''retryTestPages''"
abbreviation (input) "OPTION_NAMES_cache \<equiv> ''cache''"
abbreviation (input) "OPTION_NAMES_disableHttp2 \<equiv> ''disableHttp2''"
abbreviation (input) "OPTION_NAMES_proxyless \<equiv> ''proxyless''"
abbreviation (input) "OPTION_NAMES_filter \<equiv> ''filter''"
abbreviation (input) "OPTION_NAMES_filterTestGrep \<equiv> ''filterTestGrep''"
abbreviation (input) "OPTION_NAMES_filterFixtureGrep \<equiv> ''filterFixtureGrep''"
abbreviation (input) "OPTION_NAMES_src \<equiv> ''src''"
abbreviation (input) "OPTION_NAMES_browsers \<equiv> ''browsers''"
abbreviation (input) "OPTION_NAMES_clientScripts \<equiv> ''clientScripts''"
abbreviation (input) "OPTION_NAMES_reporter \<equiv> ''reporter''"
abbreviation (input) "OPTION_NAMES_ssl \<equiv> ''ssl''"
abbreviation (input) "OPTION_NAMES_screenshots \<equiv> ''screenshots''"
abbreviation (input) "OPTION_NAMES_selectorTimeout \<equiv> ''selectorTimeout''"
abbreviation (input) "OPTION_NAMES_assertionTimeout \<equiv> ''assertionTimeout''"
abbreviation (input) "OPTION_NAMES_pageLoadTimeout \<equiv> ''pageLoadTimeout''"
abbreviation (input) "OPTION_NAMES_speed \<equiv> ''speed''"
abbreviation (input) "OPTION_NAMES_appInitDelay \<equiv> ''appInitDelay''"
abbreviation (input) "OPTION_NAMES_concurrency \<equiv> ''concurrency''"
abbreviation (input) "OPTION_NAMES_compilerOptions \<equiv> ''compilerOptions''"
abbreviation (input) "OPTION_NAMES_tsConfigPath \<equiv> ''tsConfigPath''"
abbreviation (input) "CustomizableCompilers_typescript \<equiv> ''typescript''"
abbreviation (input) "RUNTIME_ERRORS_cannotFindTestcafeConfigurationFile \<equiv> ''cannotFindTestcafeConfigurationFile''"

subsection \<open>Primitives of the base class\<close>

text \<open>
  Modelled from the spec: the base constructor is not in the source. It is handed one
  file name or a list of them and keeps the list as the candidates to load; the option
  set and the override record start empty.
\<close>

definition Configuration_new :: "string list \<Rightarrow> conf" where
  "Configuration_new names =
     \<lparr>options = Map.empty, overriddenOptions = [], filePaths = names,
      isExplicitConfig = False, console = []\<rparr>"

text \<open>
  Modelled from the spec: the base \<open>init\<close> is not in the source. It sets up the
  search context, which is no field of the resolver.
\<close>

definition Configuration_init :: "conf \<Rightarrow> conf" where
  "Configuration_init s = s"

text \<open>
  Modelled from the spec: \<open>_fromObj\<close> is not in the source. The loaded content
  becomes an option set whose every entry has the source \<open>Configuration\<close>.
\<close>

definition fromObj :: "(string \<times> jsval) list \<Rightarrow> (string \<rightharpoonup> opt)" where
  "fromObj obj = map_of (map (\<lambda>(k, v). (k, \<lparr>val = v, source = Configuration\<rparr>)) obj)"

text \<open>
  Modelled from the spec: \<open>_ensureOption\<close> is not in the source. It returns the
  option of that name, creating it with the given value and source when the set has none.
\<close>

definition ensureOption :: "string \<Rightarrow> jsval \<Rightarrow> OptionSource \<Rightarrow> conf \<Rightarrow> opt \<times> conf" where
  "ensureOption name v src s =
     (case options s name of
        Some option \<Rightarrow> (option, s)
      | None \<Rightarrow>
          (let option = \<lparr>val = v, source = src\<rparr>
           in (option, s\<lparr>options := (options s)(name \<mapsto> option)\<rparr>)))"

text \<open>
  An assignment \<open>option.value = v\<close> to the option object of a name: the stored
  option changes, its source does not.
\<close>

definition assignValue :: "string \<Rightarrow> jsval \<Rightarrow> conf \<Rightarrow> conf" where
  "assignValue name v s =
     s\<lparr>options := (options s)(name := map_option (\<lambda>option. option\<lparr>val := v\<rparr>) (options s name))\<rparr>"

text \<open>
  Modelled from the spec: \<open>_ensureOptionWithValue\<close> is not in the source. A default
  fills an option that is still unset, at the given source.
\<close>

definition ensureOptionWithValue :: "string \<Rightarrow> jsval \<Rightarrow> OptionSource \<Rightarrow> conf \<Rightarrow> conf" where
  "ensureOptionWithValue name defaultValue src s =
     (let (option, s1) = ensureOption name defaultValue src s
      in if val option \<noteq> JUndefined then s1
         else s1\<lparr>options := (options s1)(name \<mapsto> \<lparr>val = defaultValue, source = src\<rparr>)\<rparr>)"

text \<open>
  Modelled from the spec: \<open>_ensureArrayOption\<close> is not in the source. A value that
  is not an array is wrapped in a one-element array; an absent option stays absent.
\<close>

definition ensureArrayOption :: "string \<Rightarrow> conf \<Rightarrow> conf" where
  "ensureArrayOption name s =
     (case options s name of
        None \<Rightarrow> s
      | Some option \<Rightarrow> assignValue name (castArray (val option)) s)"

text \<open>
  Modelled from the spec: \<open>getOption\<close> is not in the source. It reads the value of
  an option, \<open>undefined\<close> when the set has none.
\<close>

definition getOption :: "string \<Rightarrow> conf \<Rightarrow> jsval" where
  "getOption key s = (case options s key of None \<Rightarrow> JUndefined | Some option \<Rightarrow> val option)"

text \<open>
  Modelled from the spec: \<open>mergeOptions\<close> is not in the source. Each key of the bag
  is set with the source \<open>DirectlySet\<close>; the key is recorded as overridden, once,
  when the option it overwrites came from a lower source and had a value.
\<close>

definition mergeOption :: "string \<Rightarrow> jsval \<Rightarrow> conf \<Rightarrow> conf" where
  "mergeOption key v s =
     (case options s key of
        None \<Rightarrow> s\<lparr>options := (options s)(key \<mapsto> \<lparr>val = v, source = DirectlySet\<rparr>)\<rparr>
      | Some option \<Rightarrow>
          s\<lparr>options := (options s)(key \<mapsto> \<lparr>val = v, source = DirectlySet\<rparr>),
            overriddenOptions :=
              (if precedence (source option) < precedence DirectlySet \<and> val option \<noteq> JUndefined
                  \<and> key \<notin> set (overriddenOptions s)
               then overriddenOptions s @ [key] else overriddenOptions s)\<rparr>)"

definition mergeOptions :: "(string \<times> jsval) list \<Rightarrow> conf \<Rightarrow> conf" where
  "mergeOptions bag s = fold (\<lambda>(key, v). mergeOption key v) bag s"

text \<open>
  Modelled from the spec: \<open>_showConsoleWarning\<close> is not in the source. The message
  is written to the console.
\<close>

definition showConsoleWarning :: "string \<Rightarrow> conf \<Rightarrow> conf" where
  "showConsoleWarning message s = s\<lparr>console := console s @ [message]\<rparr>"

section \<open>TestCafeConfiguration\<close>

abbreviation (input) "BASE_CONFIGURATION_FILENAME \<equiv> ''.testcaferc''"

definition CONFIGURATION_FILENAMES :: "env \<Rightarrow> string list" where
  "CONFIGURATION_FILENAMES env =
     map (\<lambda>ext. BASE_CONFIGURATION_FILENAME @ ext) (CONFIGURATION_EXTENSIONS env)"

abbreviation (input) "DEFAULT_SCREENSHOTS_DIRECTORY \<equiv> ''screenshots''"

definition OPTION_FLAG_NAMES :: "string list" where
  "OPTION_FLAG_NAMES =
     [OPTION_NAMES_skipJsErrors, OPTION_NAMES_debugMode, OPTION_NAMES_debugOnFail,
      OPTION_NAMES_skipUncaughtErrors, OPTION_NAMES_stopOnFirstFail,
      OPTION_NAMES_takeScreenshotsOnFails, OPTION_NAMES_disablePageCaching,
      OPTION_NAMES_disablePageReloads, OPTION_NAMES_disableScreenshots,
      OPTION_NAMES_disableMultipleWindows]"

definition OPTION_INIT_FLAG_NAMES :: "string list" where
  "OPTION_INIT_FLAG_NAMES =
     [OPTION_NAMES_developmentMode, OPTION_NAMES_retryTestPages, OPTION_NAMES_cache,
      OPTION_NAMES_disableHttp2, OPTION_NAMES_proxyless]"

text \<open>
  The constructor: \<open>configFile || CONFIGURATION_FILENAMES\<close> goes to the base
  constructor, and \<open>_isExplicitConfig\<close> is \<open>!!configFile\<close>; the default
  argument is the empty string.
\<close>

definition TestCafeConfiguration :: "env \<Rightarrow> string \<Rightarrow> conf" where
  "TestCafeConfiguration env configFile =
     (Configuration_new (if configFile \<noteq> [] then [configFile] else CONFIGURATION_FILENAMES env))
       \<lparr>isExplicitConfig := (configFile \<noteq> [])\<rparr>"

definition isConfigurationFileExists :: "env \<Rightarrow> conf \<Rightarrow> string \<Rightarrow> error + bool" where
  "isConfigurationFileExists env s filePath =
     (let exists = fileExists env filePath
      in if \<not> exists \<and> isExplicitConfig s
         then Inl (GeneralError RUNTIME_ERRORS_cannotFindTestcafeConfigurationFile filePath)
         else Inr exists)"

text \<open>
  Modelled from the spec: the base \<open>_load\<close> is not in the source. The candidate
  paths are tried in order, each through \<open>_isConfigurationFileExists\<close>; the first
  that exists is read and parsed, and a failure of the reader is the failure of the load.
  No candidate found is \<open>null\<close>.
\<close>

fun loadFrom :: "env \<Rightarrow> conf \<Rightarrow> string list \<Rightarrow> error + (string \<times> jsval) list option" where
  "loadFrom env s [] = Inr None"
| "loadFrom env s (filePath # rest) =
     (case isConfigurationFileExists env s filePath of
        Inl e \<Rightarrow> Inl e
      | Inr False \<Rightarrow> loadFrom env s rest
      | Inr True \<Rightarrow>
          (case readConfigurationFile env filePath of
             Inl e \<Rightarrow> Inl e
           | Inr obj \<Rightarrow> Inr (Some obj)))"

definition load :: "env \<Rightarrow> conf \<Rightarrow> error + (string \<times> jsval) list option" where
  "load env s = loadFrom env s (filePaths s)"

fun andThen :: "outcome \<Rightarrow> (conf \<Rightarrow> outcome) \<Rightarrow> outcome" where
  "andThen (Done s) f = f s"
| "andThen (Failed e s) f = Failed e s"

subsection \<open>Flags\<close>

definition prepareFlag :: "string \<Rightarrow> conf \<Rightarrow> conf" where
  "prepareFlag name s =
     (let (option, s1) = ensureOption name JUndefined Configuration s
      in assignValue name (JBool (truthy (val option))) s1)"

definition prepareFlags :: "conf \<Rightarrow> conf" where
  "prepareFlags s = fold prepareFlag OPTION_FLAG_NAMES s"

definition prepareInitFlags :: "conf \<Rightarrow> conf" where
  "prepareInitFlags s = fold prepareFlag OPTION_INIT_FLAG_NAMES s"

subsection \<open>Normalization after load\<close>

definition prepareSslOptions :: "env \<Rightarrow> conf \<Rightarrow> outcome" where
  "prepareSslOptions env s =
     (case options s OPTION_NAMES_ssl of
        None \<Rightarrow> Done s
      | Some sslOptions \<Rightarrow>
          (case getSSLOptions env (val sslOptions) of
             Inl e \<Rightarrow> Failed e s
           | Inr v \<Rightarrow> Done (assignValue OPTION_NAMES_ssl v s)))"

text \<open>
  One of the two statements \<open>if (v.testGrep) v.testGrep = getGrepOptions(name, v.testGrep)\<close>
  of \<open>_prepareFilterFn\<close>, on the filter object \<open>v\<close>.
\<close>

definition prepareGrep :: "env \<Rightarrow> string \<Rightarrow> string \<Rightarrow> jsval \<Rightarrow> error + jsval" where
  "prepareGrep env optionName field v =
     (case get_prop v field of
        Inl e \<Rightarrow> Inl e
      | Inr grep \<Rightarrow>
          if truthy grep
          then (case getGrepOptions env optionName grep of
                  Inl e \<Rightarrow> Inl e
                | Inr g \<Rightarrow> set_prop v field g)
          else Inr v)"

definition prepareFilterFn :: "env \<Rightarrow> conf \<Rightarrow> outcome" where
  "prepareFilterFn env s =
     (let (filterOption, s0) = ensureOption OPTION_NAMES_filter JNull Configuration s
      in if \<not> truthy (val filterOption) then Done s0
         else
           (case prepareGrep env OPTION_NAMES_filterTestGrep ''testGrep'' (val filterOption) of
              Inl e \<Rightarrow> Failed e s0
            | Inr v1 \<Rightarrow>
                (case prepareGrep env OPTION_NAMES_filterFixtureGrep ''fixtureGrep'' v1 of
                   Inl e \<Rightarrow> Failed e (assignValue OPTION_NAMES_filter v1 s0)
                 | Inr v2 \<Rightarrow>
                     (case getFilterFn env v2 of
                        Inl e \<Rightarrow> Failed e (assignValue OPTION_NAMES_filter v2 s0)
                      | Inr fn \<Rightarrow> Done (assignValue OPTION_NAMES_filter fn s0)))))"

definition prepareReporters :: "env \<Rightarrow> conf \<Rightarrow> outcome" where
  "prepareReporters env s =
     (case options s OPTION_NAMES_reporter of
        None \<Rightarrow> Done s
      | Some reporterOption \<Rightarrow>
          (case utils_prepareReporters env (castArray (val reporterOption)) of
             Inl e \<Rightarrow> Failed e s
           | Inr v \<Rightarrow> Done (assignValue OPTION_NAMES_reporter v s)))"

definition normalizeOptionsAfterLoad :: "env \<Rightarrow> conf \<Rightarrow> outcome" where
  "normalizeOptionsAfterLoad env s =
     andThen (prepareSslOptions env s) (\<lambda>s.
     andThen (prepareFilterFn env (prepareInitFlags s)) (\<lambda>s.
     prepareReporters env
       (ensureArrayOption OPTION_NAMES_clientScripts
         (ensureArrayOption OPTION_NAMES_browsers
           (ensureArrayOption OPTION_NAMES_src s)))))"

subsection \<open>Browsers\<close>

text \<open>The local \<open>browsers\<close>: a copy of the array, or the one value in an array.\<close>

definition browsersOf :: "jsval \<Rightarrow> jsval list" where
  "browsersOf v = (case v of JArr xs ps \<Rightarrow> xs | _ \<Rightarrow> [v])"

inductive getBrowserInfo :: "env \<Rightarrow> conf \<Rightarrow> error + jsval \<Rightarrow> bool" for env s where
  no_option:
    "options s ''browsers'' = None \<Longrightarrow> getBrowserInfo env s (Inl TypeError)"
| no_value:
    "options s ''browsers'' = Some b \<Longrightarrow> \<not> truthy (val b) \<Longrightarrow>
     getBrowserInfo env s (Inr (JArr [] []))"
| resolved:
    "options s ''browsers'' = Some b \<Longrightarrow> truthy (val b) \<Longrightarrow>
     Promise_all (map (browserProviderPool_getBrowserInfo env) (browsersOf (val b))) (Inr browserInfo) \<Longrightarrow>
     getBrowserInfo env s (Inr (flatten browserInfo))"
| rejected:
    "options s ''browsers'' = Some b \<Longrightarrow> truthy (val b) \<Longrightarrow>
     Promise_all (map (browserProviderPool_getBrowserInfo env) (browsersOf (val b))) (Inl e) \<Longrightarrow>
     getBrowserInfo env s (Inl e)"

code_pred getBrowserInfo .

subsection \<open>Merging the runtime options\<close>

text \<open>\<open>options || {}\<close>: an absent bag is the empty one.\<close>

definition orEmpty :: "(string \<times> jsval) list option \<Rightarrow> (string \<times> jsval) list" where
  "orEmpty opts = (case opts of None \<Rightarrow> [] | Some bag \<Rightarrow> bag)"

inductive asyncMergeOptions :: "env \<Rightarrow> (string \<times> jsval) list option \<Rightarrow> conf \<Rightarrow> outcome \<Rightarrow> bool"
  for env opts s where
  no_browsers:
    "s1 = mergeOptions (orEmpty opts) s \<Longrightarrow> options s1 ''browsers'' = None \<Longrightarrow>
     asyncMergeOptions env opts s (Done s1)"
| browsers_resolved:
    "s1 = mergeOptions (orEmpty opts) s \<Longrightarrow> options s1 ''browsers'' \<noteq> None \<Longrightarrow>
     getBrowserInfo env s1 (Inr v) \<Longrightarrow>
     asyncMergeOptions env opts s (Done (assignValue ''browsers'' v s1))"
| browsers_failed:
    "s1 = mergeOptions (orEmpty opts) s \<Longrightarrow> options s1 ''browsers'' \<noteq> None \<Longrightarrow>
     getBrowserInfo env s1 (Inl e) \<Longrightarrow>
     asyncMergeOptions env opts s (Failed e s1)"

code_pred asyncMergeOptions .

subsection \<open>init\<close>

inductive init :: "env \<Rightarrow> (string \<times> jsval) list option \<Rightarrow> conf \<Rightarrow> outcome \<Rightarrow> bool"
  for env opts s where
  load_failed:
    "s0 = Configuration_init s \<Longrightarrow> load env s0 = Inl e \<Longrightarrow>
     init env opts s (Failed e s0)"
| nothing_loaded:
    "s0 = Configuration_init s \<Longrightarrow> load env s0 = Inr None \<Longrightarrow>
     asyncMergeOptions env opts s0 out \<Longrightarrow>
     init env opts s out"
| normalize_failed:
    "s0 = Configuration_init s \<Longrightarrow> load env s0 = Inr (Some obj) \<Longrightarrow>
     normalizeOptionsAfterLoad env (s0\<lparr>options := fromObj obj\<rparr>) = Failed e s1 \<Longrightarrow>
     init env opts s (Failed e s1)"
| loaded:
    "s0 = Configuration_init s \<Longrightarrow> load env s0 = Inr (Some obj) \<Longrightarrow>
     normalizeOptionsAfterLoad env (s0\<lparr>options := fromObj obj\<rparr>) = Done s1 \<Longrightarrow>
     asyncMergeOptions env opts s1 out \<Longrightarrow>
     init env opts s out"

code_pred init .

subsection \<open>The override report\<close>

definition notifyAboutOverriddenOptions :: "env \<Rightarrow> conf \<Rightarrow> conf" where
  "notifyAboutOverriddenOptions env s =
     (if length (overriddenOptions s) = 0 then s
      else
        (let optionsStr = getConcatenatedValuesString env (overriddenOptions s);
             optionsSuffix = getPluralSuffix env (overriddenOptions s);
             s1 = showConsoleWarning
                    (renderTemplate env (configOptionsWereOverridden env) optionsStr optionsSuffix) s
         in s1\<lparr>overriddenOptions := []\<rparr>))"

subsection \<open>prepare\<close>

definition ensureScreenshotOptions :: "env \<Rightarrow> conf \<Rightarrow> outcome" where
  "ensureScreenshotOptions env s =
     (let path = resolvePathRelativelyCwd env DEFAULT_SCREENSHOTS_DIRECTORY;
          (option, s0) = ensureOption OPTION_NAMES_screenshots (JObj []) Configuration s;
          screenshots = val option
      in case get_prop screenshots ''path'' of
           Inl e \<Rightarrow> Failed e s0
         | Inr p \<Rightarrow>
             (case (if \<not> truthy p then set_prop screenshots ''path'' (JStr path) else Inr screenshots) of
                Inl e \<Rightarrow> Failed e s0
              | Inr screenshots1 \<Rightarrow>
                  (let s1 = assignValue OPTION_NAMES_screenshots screenshots1 s0
                   in case get_prop screenshots1 ''thumbnails'' of
                        Inl e \<Rightarrow> Failed e s1
                      | Inr t \<Rightarrow>
                          (case (if t = JUndefined
                                 then set_prop screenshots1 ''thumbnails''
                                        (JBool (DEFAULT_SCREENSHOT_THUMBNAILS env))
                                 else Inr screenshots1) of
                             Inl e \<Rightarrow> Failed e s1
                           | Inr screenshots2 \<Rightarrow>
                               Done (assignValue OPTION_NAMES_screenshots screenshots2 s1)))))"

definition setDefaultValues :: "env \<Rightarrow> conf \<Rightarrow> outcome" where
  "setDefaultValues env s =
     ensureScreenshotOptions env
       (ensureOptionWithValue OPTION_NAMES_proxyless (DEFAULT_PROXYLESS env) Configuration
       (ensureOptionWithValue OPTION_NAMES_disableHttp2 (DEFAULT_DISABLE_HTTP2 env) Configuration
       (ensureOptionWithValue OPTION_NAMES_retryTestPages (DEFAULT_RETRY_TEST_PAGES env) Configuration
       (ensureOptionWithValue OPTION_NAMES_developmentMode (DEFAULT_DEVELOPMENT_MODE env) Configuration
       (ensureOptionWithValue OPTION_NAMES_src (DEFAULT_SOURCE_DIRECTORIES env) Configuration
       (ensureOptionWithValue OPTION_NAMES_concurrency (DEFAULT_CONCURRENCY_VALUE env) Configuration
       (ensureOptionWithValue OPTION_NAMES_appInitDelay (DEFAULT_APP_INIT_DELAY env) Configuration
       (ensureOptionWithValue OPTION_NAMES_speed (DEFAULT_SPEED_VALUE env) Configuration
       (ensureOptionWithValue OPTION_NAMES_pageLoadTimeout (DEFAULT_TIMEOUT_pageLoad env) Configuration
       (ensureOptionWithValue OPTION_NAMES_assertionTimeout (DEFAULT_TIMEOUT_assertion env) Configuration
       (ensureOptionWithValue OPTION_NAMES_selectorTimeout (DEFAULT_TIMEOUT_selector env) Configuration
          s)))))))))))"

definition prepareCompilerOptions :: "env \<Rightarrow> conf \<Rightarrow> outcome" where
  "prepareCompilerOptions env s =
     (let (compilerOptions, s0) =
            ensureOption OPTION_NAMES_compilerOptions (getDefaultCompilerOptions env) Configuration s;
          compilerOptionValue =
            (if truthy (val compilerOptions) then val compilerOptions
             else getDefaultCompilerOptions env);
          s1 = assignValue OPTION_NAMES_compilerOptions compilerOptionValue s0;
          tsConfigPath = getOption OPTION_NAMES_tsConfigPath s1
      in if truthy tsConfigPath
         then
           (case get_prop compilerOptionValue CustomizableCompilers_typescript of
              Inl e \<Rightarrow> Failed e s1
            | Inr typeScriptCompilerOptions \<Rightarrow>
                (case set_prop compilerOptionValue CustomizableCompilers_typescript
                        (Object_assign [(''configPath'', tsConfigPath)] typeScriptCompilerOptions) of
                   Inl e \<Rightarrow> Failed e s1
                 | Inr v \<Rightarrow> Done (assignValue OPTION_NAMES_compilerOptions v s1)))
         else Done s1)"

definition prepare :: "env \<Rightarrow> conf \<Rightarrow> outcome" where
  "prepare env s =
     andThen (setDefaultValues env (prepareFlags s)) (prepareCompilerOptions env)"


section \<open>Reading outcomes and results\<close>

text \<open>The resolver a method leaves behind, whether it returned or threw.\<close>

fun confOf :: "outcome \<Rightarrow> conf" where
  "confOf (Done s) = s"
| "confOf (Failed e s) = s"

text \<open>
  The expansion of one browser specifier: the descriptors the provider pool resolved it
  to, one descriptor when the pool answered with a single value.
\<close>

definition expansion :: "jsval \<Rightarrow> jsval list" where
  "expansion r = (case r of JArr xs ps \<Rightarrow> xs | _ \<Rightarrow> [r])"

section \<open>A concrete environment\<close>

text \<open>
  An environment to run the resolver in: no configuration file on disk, a provider pool
  that knows \<open>chrome\<close> (two descriptors) and \<open>firefox\<close> (one), and normalizers
  that hand their argument back.
\<close>

definition example_env :: env where
  "example_env =
     \<lparr>CONFIGURATION_EXTENSIONS = [''.js'', ''.json''],
      fileExists = (\<lambda>filePath. False),
      readConfigurationFile = (\<lambda>filePath. Inr []),
      browserProviderPool_getBrowserInfo =
        (\<lambda>browser.
           if browser = JStr ''chrome''
           then Inr (JArr [JStr ''chrome:stable'', JStr ''chrome:beta''] [])
           else if browser = JStr ''firefox'' then Inr (JStr ''firefox:stable'')
           else Inl (CollaboratorError ''unknown browser'')),
      getSSLOptions = (\<lambda>v. Inr v),
      getGrepOptions = (\<lambda>optionName v. Inr v),
      getFilterFn = (\<lambda>v. Inr (JFn 0 [])),
      utils_prepareReporters = (\<lambda>v. Inr v),
      getConcatenatedValuesString = concat,
      getPluralSuffix = (\<lambda>names. if length names > 1 then ''s'' else []),
      renderTemplate = (\<lambda>template a b. template @ a @ b),
      configOptionsWereOverridden = ''overridden: '',
      resolvePathRelativelyCwd = (\<lambda>path. ''/cwd/'' @ path),
      DEFAULT_TIMEOUT_selector = JNum 10000,
      DEFAULT_TIMEOUT_assertion = JNum 3000,
      DEFAULT_TIMEOUT_pageLoad = JNum 3000,
      DEFAULT_SPEED_VALUE = JNum 1,
      DEFAULT_APP_INIT_DELAY = JNum 1000,
      DEFAULT_CONCURRENCY_VALUE = JNum 1,
      DEFAULT_SOURCE_DIRECTORIES = JArr [JStr ''tests''] [],
      DEFAULT_DEVELOPMENT_MODE = JBool False,
      DEFAULT_RETRY_TEST_PAGES = JBool False,
      DEFAULT_DISABLE_HTTP2 = JBool False,
      DEFAULT_PROXYLESS = JBool False,
      DEFAULT_SCREENSHOT_THUMBNAILS = True,
      getDefaultCompilerOptions =
        JObj [(''typescript'', JObj [(''options'', JObj [(''esModuleInterop'', JBool True)])])]\<rparr>"

text \<open>A resolver whose option set was loaded from the given configuration content.\<close>

definition example_conf :: "(string \<times> jsval) list \<Rightarrow> conf" where
  "example_conf obj = (Configuration_new [])\<lparr>options := fromObj obj\<rparr>"

text \<open>
  The same environment with a configuration file \<open>.testcaferc.json\<close> on disk, and
  with normalizers that wrap what they are given, so that a normalized value differs from
  the raw one.
\<close>

definition example_file :: "(string \<times> jsval) list" where
  "example_file =
     [(''ssl'', JStr ''key=k;cert=c''), (''cache'', JNum 1),
      (''filter'', JObj [(''testGrep'', JStr ''login'')]), (''src'', JStr ''tests''),
      (''reporter'', JStr ''spec'')]"

definition example_file_env :: env where
  "example_file_env =
     example_env\<lparr>fileExists := (\<lambda>filePath. filePath = ''.testcaferc.json''),
                 readConfigurationFile := (\<lambda>filePath. Inr example_file),
                 getSSLOptions := (\<lambda>v. Inr (JObj [(''options'', v)])),
                 getGrepOptions := (\<lambda>optionName v. Inr (JObj [(''regexp'', v)])),
                 utils_prepareReporters := (\<lambda>v. Inr (JObj [(''reporters'', v)]))\<rparr>"

text \<open>
  What \<open>init\<close> does before it merges the runtime options: the base initialization,
  the load, and the normalization of what was loaded.
\<close>

definition beforeMerge :: "env \<Rightarrow> conf \<Rightarrow> outcome" where
  "beforeMerge env s =
     (let s0 = Configuration_init s
      in case load env s0 of
           Inl e \<Rightarrow> Failed e s0
         | Inr None \<Rightarrow> Done s0
         | Inr (Some obj) \<Rightarrow> normalizeOptionsAfterLoad env (s0\<lparr>options := fromObj obj\<rparr>))"

fun isDone :: "outcome \<Rightarrow> bool" where
  "isDone (Done s) = True"
| "isDone (Failed e s) = False"

text \<open>The options \<open>_setDefaultValues\<close> fills before it turns to the screenshots.\<close>

definition defaultValueNames :: "string list" where
  "defaultValueNames =
     [OPTION_NAMES_selectorTimeout, OPTION_NAMES_assertionTimeout, OPTION_NAMES_pageLoadTimeout,
      OPTION_NAMES_speed, OPTION_NAMES_appInitDelay, OPTION_NAMES_concurrency, OPTION_NAMES_src,
      OPTION_NAMES_developmentMode, OPTION_NAMES_retryTestPages, OPTION_NAMES_disableHttp2,
      OPTION_NAMES_proxyless]"


text \<open>The value of a property of a plain object, \<open>undefined\<close> when it has none.\<close>

definition propOf :: "(string \<times> jsval) list \<Rightarrow> string \<Rightarrow> jsval" where
  "propOf ps k = (case map_of ps k of None \<Rightarrow> JUndefined | Some v \<Rightarrow> v)"

text \<open>
  What \<open>_ensureScreenshotOptions\<close> makes of the properties of a screenshots
  object: its two conditional assignments, in their order.
\<close>

definition fillScreenshots :: "env \<Rightarrow> (string \<times> jsval) list \<Rightarrow> (string \<times> jsval) list" where
  "fillScreenshots env ps =
     (let ps1 = (if truthy (propOf ps ''path'') then ps
                 else AList.update ''path'' (JStr (resolvePathRelativelyCwd env DEFAULT_SCREENSHOTS_DIRECTORY)) ps)
      in if propOf ps1 ''thumbnails'' = JUndefined
         then AList.update ''thumbnails'' (JBool (DEFAULT_SCREENSHOT_THUMBNAILS env)) ps1
         else ps1)"


section \<open>Flag coercion\<close>

lemma truthy_iff:
  "truthy v \<longleftrightarrow> v \<notin> {JUndefined, JNull, JBool False, JNum 0, JNaN, JStr []}"
  by (cases v) auto

lemma getOption_prepareFlag:
  "getOption name (prepareFlag name s) = JBool (truthy (getOption name s))"
  by (simp add: getOption_def prepareFlag_def ensureOption_def assignValue_def Let_def
      split: option.split)

lemma prepareFlag_idem: "prepareFlag name (prepareFlag name s) = prepareFlag name s"
  by (auto simp add: prepareFlag_def ensureOption_def assignValue_def Let_def split: option.split)

text \<open>
  C7, as stated, fails: NaN is none of \<open>0\<close>, the empty string, \<open>null\<close> and
  \<open>undefined\<close>, and it is no boolean, yet a flag holding NaN is coerced to
  \<open>false\<close>.
\<close>

theorem prepareFlag_NaN_counterexample:
  "getOption ''debugMode'' (prepareFlag ''debugMode'' (example_conf [(''debugMode'', JNaN)]))
     = JBool False
   \<and> JNaN \<noteq> JNum 0 \<and> JNaN \<noteq> JStr [] \<and> JNaN \<noteq> JNull \<and> JNaN \<noteq> JUndefined"
  by (simp add: getOption_def prepareFlag_def ensureOption_def assignValue_def example_conf_def
      fromObj_def)

text \<open>
  C7, amended: flag coercion is double negation. The value of the flag after
  \<open>_prepareFlag\<close> is the boolean truthiness of its raw value (of \<open>undefined\<close>
  when the flag was absent); the falsy values are exactly \<open>undefined\<close>, \<open>null\<close>,
  \<open>false\<close>, \<open>0\<close>, NaN and the empty string, every other value is coerced to
  \<open>true\<close>; a flag that already holds a boolean keeps it; and coercing twice is
  coercing once.
\<close>

theorem prepareFlag_coercion:
  "getOption name (prepareFlag name s) = JBool (truthy (getOption name s))
   \<and> (truthy v \<longleftrightarrow> v \<notin> {JUndefined, JNull, JBool False, JNum 0, JNaN, JStr []})
   \<and> (getOption name s = JBool b \<longrightarrow> getOption name (prepareFlag name s) = JBool b)
   \<and> prepareFlag name (prepareFlag name s) = prepareFlag name s"
proof (intro conjI impI)
  show "getOption name (prepareFlag name s) = JBool (truthy (getOption name s))"
    by (rule getOption_prepareFlag)
  show "truthy v \<longleftrightarrow> v \<notin> {JUndefined, JNull, JBool False, JNum 0, JNaN, JStr []}"
    by (rule truthy_iff)
  show "getOption name (prepareFlag name s) = JBool b" if "getOption name s = JBool b"
    using that by (simp add: getOption_prepareFlag)
  show "prepareFlag name (prepareFlag name s) = prepareFlag name s"
    by (rule prepareFlag_idem)
qed

text \<open>
  C7, amended, at a flag that holds \<open>true\<close>, with the truthy string \<open>"no"\<close> and
  the falsy NaN.
\<close>

theorem prepareFlag_coercion_witness:
  "getOption ''cache'' (prepareFlag ''cache'' (example_conf [(''cache'', JBool True)])) = JBool True
   \<and> truthy (JStr ''no'') \<and> \<not> truthy JNaN
   \<and> prepareFlag ''cache'' (prepareFlag ''cache'' (example_conf [(''cache'', JBool True)]))
       = prepareFlag ''cache'' (example_conf [(''cache'', JBool True)])"
proof -
  have raw: "getOption ''cache'' (example_conf [(''cache'', JBool True)]) = JBool True"
    by (simp add: getOption_def example_conf_def fromObj_def)
  show ?thesis
    using prepareFlag_coercion [of "''cache''" "example_conf [(''cache'', JBool True)]" "JStr ''no''" True]
          prepareFlag_coercion [of "''cache''" "example_conf [(''cache'', JBool True)]" JNaN True] raw
    by simp
qed

section \<open>What each normalization step touches\<close>

lemma options_assignValue:
  "options (assignValue name v s) k =
     (if k = name then map_option (\<lambda>option. option\<lparr>val := v\<rparr>) (options s name) else options s k)"
  by (simp add: assignValue_def)

lemma options_prepareFlag_other: "k \<noteq> name \<Longrightarrow> options (prepareFlag name s) k = options s k"
  by (simp add: prepareFlag_def ensureOption_def assignValue_def Let_def split: option.split)

lemma getOption_prepareFlag_other: "k \<noteq> name \<Longrightarrow> getOption k (prepareFlag name s) = getOption k s"
  by (simp add: getOption_def options_prepareFlag_other)

lemma options_fold_prepareFlag_other:
  "k \<notin> set names \<Longrightarrow> options (fold prepareFlag names s) k = options s k"
  by (induction names arbitrary: s) (simp_all add: options_prepareFlag_other)

lemma getOption_fold_prepareFlag:
  "distinct names \<Longrightarrow> n \<in> set names \<Longrightarrow>
   getOption n (fold prepareFlag names s) = JBool (truthy (getOption n s))"
proof (induction names arbitrary: s)
  case Nil
  then show ?case by simp
next
  case (Cons a names)
  show ?case
  proof (cases "n = a")
    case True
    with Cons.prems have "n \<notin> set names" by simp
    then have "getOption n (fold prepareFlag names (prepareFlag a s)) = getOption n (prepareFlag a s)"
      by (simp add: getOption_def options_fold_prepareFlag_other)
    with True show ?thesis by (simp add: getOption_prepareFlag)
  next
    case False
    with Cons show ?thesis by (simp add: getOption_prepareFlag_other)
  qed
qed

lemma options_prepareInitFlags_other:
  "k \<notin> set OPTION_INIT_FLAG_NAMES \<Longrightarrow> options (prepareInitFlags s) k = options s k"
  by (simp add: prepareInitFlags_def options_fold_prepareFlag_other)

lemma getOption_prepareInitFlags:
  "n \<in> set OPTION_INIT_FLAG_NAMES \<Longrightarrow>
   getOption n (prepareInitFlags s) = JBool (truthy (getOption n s))"
  unfolding prepareInitFlags_def
  by (rule getOption_fold_prepareFlag) (simp_all add: OPTION_INIT_FLAG_NAMES_def)

lemma options_prepareSslOptions_other:
  "k \<noteq> OPTION_NAMES_ssl \<Longrightarrow> options (confOf (prepareSslOptions env s)) k = options s k"
  by (simp add: prepareSslOptions_def assignValue_def split: option.split sum.split)

lemma prepareSslOptions_failed: "\<not> isDone (prepareSslOptions env s) \<Longrightarrow> confOf (prepareSslOptions env s) = s"
  by (simp add: prepareSslOptions_def split: option.splits sum.splits)

lemma options_prepareFilterFn_other:
  "k \<noteq> OPTION_NAMES_filter \<Longrightarrow> options (confOf (prepareFilterFn env s)) k = options s k"
  by (simp add: prepareFilterFn_def ensureOption_def assignValue_def Let_def
      split: option.split sum.split)

lemma options_prepareFilterFn_filter:
  "options (confOf (prepareFilterFn env s)) OPTION_NAMES_filter \<noteq> None"
  by (simp add: prepareFilterFn_def ensureOption_def assignValue_def Let_def
      split: option.split sum.split)

lemma prepareFilterFn_absent:
  "options s OPTION_NAMES_filter = None \<Longrightarrow>
   prepareFilterFn env s
     = Done (s\<lparr>options := (options s)(OPTION_NAMES_filter \<mapsto> \<lparr>val = JNull, source = Configuration\<rparr>)\<rparr>)"
  by (simp add: prepareFilterFn_def ensureOption_def Let_def)

lemma prepareFilterFn_falsy:
  "options s OPTION_NAMES_filter = Some option \<Longrightarrow> \<not> truthy (val option) \<Longrightarrow>
   prepareFilterFn env s = Done s"
  by (simp add: prepareFilterFn_def ensureOption_def Let_def)

lemma options_ensureArrayOption:
  "options (ensureArrayOption name s) k =
     (if k = name then map_option (\<lambda>option. option\<lparr>val := castArray (val option)\<rparr>) (options s name)
      else options s k)"
  by (simp add: ensureArrayOption_def assignValue_def split: option.split)

lemma options_prepareReporters_other:
  "k \<noteq> OPTION_NAMES_reporter \<Longrightarrow> options (confOf (prepareReporters env s)) k = options s k"
  by (simp add: prepareReporters_def assignValue_def split: option.split sum.split)

lemma prepareReporters_failed: "\<not> isDone (prepareReporters env s) \<Longrightarrow> confOf (prepareReporters env s) = s"
  by (simp add: prepareReporters_def split: option.splits sum.splits)

lemma normalizeOptionsAfterLoad_steps:
  "normalizeOptionsAfterLoad env t =
     (case prepareSslOptions env t of
        Failed e t1 \<Rightarrow> Failed e t1
      | Done t1 \<Rightarrow>
          (case prepareFilterFn env (prepareInitFlags t1) of
             Failed e t2 \<Rightarrow> Failed e t2
           | Done t2 \<Rightarrow>
               prepareReporters env
                 (ensureArrayOption OPTION_NAMES_clientScripts
                   (ensureArrayOption OPTION_NAMES_browsers
                     (ensureArrayOption OPTION_NAMES_src t2)))))"
  by (simp add: normalizeOptionsAfterLoad_def split: outcome.split)

lemma isDone_confOf: "isDone out \<Longrightarrow> out = Done (confOf out)"
  by (cases out) simp_all

lemma getOption_cong: "options s k = options t k \<Longrightarrow> getOption k s = getOption k t"
  by (simp add: getOption_def)

lemma init_flag_names_not_ssl_filter:
  "n \<in> set OPTION_INIT_FLAG_NAMES \<Longrightarrow> n \<noteq> OPTION_NAMES_ssl \<and> n \<noteq> OPTION_NAMES_filter
     \<and> n \<noteq> OPTION_NAMES_src \<and> n \<noteq> OPTION_NAMES_browsers \<and> n \<noteq> OPTION_NAMES_clientScripts
     \<and> n \<noteq> OPTION_NAMES_reporter"
  by (auto simp add: OPTION_INIT_FLAG_NAMES_def)

lemma flags_after_filter_step:
  assumes "n \<in> set OPTION_INIT_FLAG_NAMES"
  shows "getOption n (confOf (prepareFilterFn env (prepareInitFlags (confOf (prepareSslOptions env t)))))
           = JBool (truthy (getOption n t))"
proof -
  have ne: "n \<noteq> OPTION_NAMES_ssl" "n \<noteq> OPTION_NAMES_filter"
    using init_flag_names_not_ssl_filter [OF assms] by simp_all
  have "getOption n (confOf (prepareFilterFn env (prepareInitFlags (confOf (prepareSslOptions env t)))))
          = getOption n (prepareInitFlags (confOf (prepareSslOptions env t)))"
    by (rule getOption_cong) (simp add: options_prepareFilterFn_other ne)
  also have "\<dots> = JBool (truthy (getOption n (confOf (prepareSslOptions env t))))"
    by (rule getOption_prepareInitFlags [OF assms])
  also have "getOption n (confOf (prepareSslOptions env t)) = getOption n t"
    by (rule getOption_cong) (simp add: options_prepareSslOptions_other ne)
  finally show ?thesis .
qed

lemma untouched_before_arrays:
  assumes "n \<in> {OPTION_NAMES_src, OPTION_NAMES_browsers, OPTION_NAMES_clientScripts, OPTION_NAMES_reporter}"
  shows "options (confOf (prepareFilterFn env (prepareInitFlags (confOf (prepareSslOptions env t))))) n
           = options t n"
proof -
  from assms have ne: "n \<noteq> OPTION_NAMES_ssl" "n \<noteq> OPTION_NAMES_filter" "n \<notin> set OPTION_INIT_FLAG_NAMES"
    by (auto simp add: OPTION_INIT_FLAG_NAMES_def)
  show ?thesis
    by (simp add: options_prepareFilterFn_other options_prepareInitFlags_other
        options_prepareSslOptions_other ne)
qed

section \<open>The concrete environment, field by field\<close>

lemma example_file_env_simps:
  "getSSLOptions example_file_env v = Inr (JObj [(''options'', v)])"
  "getGrepOptions example_file_env optionName v = Inr (JObj [(''regexp'', v)])"
  "getFilterFn example_file_env v = Inr (JFn 0 [])"
  "utils_prepareReporters example_file_env v = Inr (JObj [(''reporters'', v)])"
  "fileExists example_file_env filePath = (filePath = ''.testcaferc.json'')"
  "readConfigurationFile example_file_env filePath = Inr example_file"
  "CONFIGURATION_EXTENSIONS example_file_env = [''.js'', ''.json'']"
  by (simp_all add: example_file_env_def example_env_def)

lemma example_env_simps:
  "getSSLOptions example_env v = Inr v"
  "getGrepOptions example_env optionName v = Inr v"
  "getFilterFn example_env v = Inr (JFn 0 [])"
  "utils_prepareReporters example_env v = Inr v"
  "fileExists example_env filePath = False"
  "CONFIGURATION_EXTENSIONS example_env = [''.js'', ''.json'']"
  by (simp_all add: example_env_def)


section \<open>What each preparation step touches\<close>

lemma options_prepareFlags_other:
  "k \<notin> set OPTION_FLAG_NAMES \<Longrightarrow> options (prepareFlags s) k = options s k"
  by (simp add: prepareFlags_def options_fold_prepareFlag_other)

lemma options_ensureOptionWithValue_other:
  "k \<noteq> name \<Longrightarrow> options (ensureOptionWithValue name d src s) k = options s k"
  by (simp add: ensureOptionWithValue_def ensureOption_def Let_def split: option.split)

lemma setDefaultValues_is_screenshots:
  "\<exists>s'. setDefaultValues env s = ensureScreenshotOptions env s'
      \<and> (\<forall>k. k \<notin> set defaultValueNames \<longrightarrow> options s' k = options s k)"
  unfolding setDefaultValues_def
  by (rule exI, rule conjI, rule refl)
     (simp add: defaultValueNames_def options_ensureOptionWithValue_other)

lemma options_ensureScreenshotOptions_other:
  "k \<noteq> OPTION_NAMES_screenshots \<Longrightarrow> options (confOf (ensureScreenshotOptions env s)) k = options s k"
  by (simp add: ensureScreenshotOptions_def ensureOption_def assignValue_def Let_def
      split: option.split sum.split)

lemma options_prepareCompilerOptions_other:
  "k \<noteq> OPTION_NAMES_compilerOptions \<Longrightarrow> options (confOf (prepareCompilerOptions env s)) k = options s k"
  by (simp add: prepareCompilerOptions_def ensureOption_def assignValue_def Let_def
      split: option.split sum.split)

lemma ensureScreenshotOptions_object:
  "options s OPTION_NAMES_screenshots = Some \<lparr>val = JObj ps, source = src\<rparr> \<Longrightarrow>
   ensureScreenshotOptions env s
     = Done (s\<lparr>options := (options s)(OPTION_NAMES_screenshots \<mapsto>
                \<lparr>val = JObj (fillScreenshots env ps), source = src\<rparr>)\<rparr>)"
  by (auto simp add: ensureScreenshotOptions_def ensureOption_def assignValue_def Let_def
      fillScreenshots_def propOf_def fun_upd_idem)

lemma ensureScreenshotOptions_absent:
  "options s OPTION_NAMES_screenshots = None \<Longrightarrow>
   ensureScreenshotOptions env s
     = Done (s\<lparr>options := (options s)(OPTION_NAMES_screenshots \<mapsto>
                \<lparr>val = JObj (fillScreenshots env []), source = Configuration\<rparr>)\<rparr>)"
  by (simp add: ensureScreenshotOptions_def ensureOption_def assignValue_def Let_def
      fillScreenshots_def propOf_def)

lemma map_of_fillScreenshots:
  "map_of (fillScreenshots env ps) k =
     (if k = ''path'' then
        (if truthy (propOf ps ''path'') then map_of ps ''path''
         else Some (JStr (resolvePathRelativelyCwd env DEFAULT_SCREENSHOTS_DIRECTORY)))
      else if k = ''thumbnails'' then
        (if propOf ps ''thumbnails'' = JUndefined then Some (JBool (DEFAULT_SCREENSHOT_THUMBNAILS env))
         else map_of ps ''thumbnails'')
      else map_of ps k)"
  by (simp add: fillScreenshots_def Let_def propOf_def update_conv')

lemma prepare_upto_screenshots:
  assumes "options s OPTION_NAMES_screenshots = None \<and> ps = [] \<and> src = Configuration
         \<or> options s OPTION_NAMES_screenshots = Some \<lparr>val = JObj ps, source = src\<rparr>"
  shows "\<exists>s3. setDefaultValues env (prepareFlags s) = Done s3
            \<and> options s3 OPTION_NAMES_screenshots = Some \<lparr>val = JObj (fillScreenshots env ps), source = src\<rparr>
            \<and> (\<forall>k. k \<notin> set OPTION_FLAG_NAMES \<union> set defaultValueNames \<union> {OPTION_NAMES_screenshots}
                   \<longrightarrow> options s3 k = options s k)"
proof -
  obtain s2 where s2: "setDefaultValues env (prepareFlags s) = ensureScreenshotOptions env s2"
      and frame: "\<forall>k. k \<notin> set defaultValueNames \<longrightarrow> options s2 k = options (prepareFlags s) k"
    using setDefaultValues_is_screenshots by blast
  have same: "options s2 k = options s k" if "k \<notin> set OPTION_FLAG_NAMES \<union> set defaultValueNames" for k
    using that frame by (simp add: options_prepareFlags_other)
  have sc: "options s2 OPTION_NAMES_screenshots = options s OPTION_NAMES_screenshots"
    by (rule same) (simp add: OPTION_FLAG_NAMES_def defaultValueNames_def)
  from assms show ?thesis
  proof
    assume a: "options s OPTION_NAMES_screenshots = None \<and> ps = [] \<and> src = Configuration"
    then have "options s2 OPTION_NAMES_screenshots = None" using sc by simp
    from ensureScreenshotOptions_absent [OF this, of env] a s2 same show ?thesis
      by simp
  next
    assume a: "options s OPTION_NAMES_screenshots = Some \<lparr>val = JObj ps, source = src\<rparr>"
    then have "options s2 OPTION_NAMES_screenshots = Some \<lparr>val = JObj ps, source = src\<rparr>" using sc by simp
    from ensureScreenshotOptions_object [OF this, of env] s2 same show ?thesis
      by simp
  qed
qed

lemma prepare_screenshots_value:
  assumes "options s OPTION_NAMES_screenshots = None \<and> ps = [] \<and> src = Configuration
         \<or> options s OPTION_NAMES_screenshots = Some \<lparr>val = JObj ps, source = src\<rparr>"
  shows "options (confOf (prepare env s)) OPTION_NAMES_screenshots
           = Some \<lparr>val = JObj (fillScreenshots env ps), source = src\<rparr>"
proof -
  obtain s3 where s3: "setDefaultValues env (prepareFlags s) = Done s3"
      and sc: "options s3 OPTION_NAMES_screenshots = Some \<lparr>val = JObj (fillScreenshots env ps), source = src\<rparr>"
    using prepare_upto_screenshots [OF assms] by blast
  show ?thesis
    by (simp add: prepare_def s3 options_prepareCompilerOptions_other sc)
qed


lemma map_of_fold_update:
  "distinct (map fst kvs) \<Longrightarrow>
   map_of (fold (\<lambda>(k, v). AList.update k v) kvs al) k
     = (case map_of kvs k of Some v \<Rightarrow> Some v | None \<Rightarrow> map_of al k)"
proof (induction kvs arbitrary: al)
  case Nil
  then show ?case by simp
next
  case (Cons kv kvs)
  obtain a b where kv: "kv = (a, b)" by (cases kv)
  from Cons.prems kv have "map_of kvs a = None"
    by (simp add: map_of_eq_None_iff)
  with Cons kv show ?case
    by (auto simp add: update_conv' split: option.split)
qed

lemma map_of_Object_assign_object:
  "\<exists>r. Object_assign target (JObj tps) = JObj r
      \<and> (\<forall>k. map_of r k = (case map_of tps k of Some v \<Rightarrow> Some v | None \<Rightarrow> map_of target k))"
  by (simp add: Object_assign_def map_of_fold_update map_of_clearjunk)

lemma Object_assign_undefined: "Object_assign target JUndefined = JObj target"
  by (simp add: Object_assign_def)

lemma prepareCompilerOptions_merges:
  assumes "(case options s OPTION_NAMES_compilerOptions of
              None \<Rightarrow> getDefaultCompilerOptions env
            | Some option \<Rightarrow>
                if truthy (val option) then val option else getDefaultCompilerOptions env)
           = JObj cps"
      and "truthy (getOption OPTION_NAMES_tsConfigPath s)"
  shows "prepareCompilerOptions env s
           = Done (s\<lparr>options := (options s)(OPTION_NAMES_compilerOptions \<mapsto>
               \<lparr>val = JObj (AList.update CustomizableCompilers_typescript
                         (Object_assign [(''configPath'', getOption OPTION_NAMES_tsConfigPath s)]
                            (propOf cps CustomizableCompilers_typescript)) cps),
                source = (case options s OPTION_NAMES_compilerOptions of
                            None \<Rightarrow> Configuration | Some option \<Rightarrow> source option)\<rparr>)\<rparr>)"
proof (cases "options s OPTION_NAMES_compilerOptions")
  case None
  with assms show ?thesis
    by (simp add: prepareCompilerOptions_def ensureOption_def assignValue_def Let_def getOption_def
        propOf_def)
next
  case (Some option)
  obtain v src where option: "option = \<lparr>val = v, source = src\<rparr>"
    by (cases option) simp
  with Some assms show ?thesis
    by (cases "truthy v")
       (simp_all add: prepareCompilerOptions_def ensureOption_def assignValue_def Let_def
          getOption_def propOf_def)
qed

lemma prepare_compilerOptions_value:
  assumes "options s OPTION_NAMES_screenshots = None
         \<or> (\<exists>ps src'. options s OPTION_NAMES_screenshots = Some \<lparr>val = JObj ps, source = src'\<rparr>)"
      and "(case options s OPTION_NAMES_compilerOptions of
              None \<Rightarrow> getDefaultCompilerOptions env
            | Some option \<Rightarrow>
                if truthy (val option) then val option else getDefaultCompilerOptions env)
           = JObj cps"
      and "truthy (getOption OPTION_NAMES_tsConfigPath s)"
  shows "isDone (prepare env s)
       \<and> options (confOf (prepare env s)) OPTION_NAMES_compilerOptions
           = Some \<lparr>val = JObj (AList.update CustomizableCompilers_typescript
                         (Object_assign [(''configPath'', getOption OPTION_NAMES_tsConfigPath s)]
                            (propOf cps CustomizableCompilers_typescript)) cps),
                    source = (case options s OPTION_NAMES_compilerOptions of
                                None \<Rightarrow> Configuration | Some option \<Rightarrow> source option)\<rparr>"
proof -
  from assms(1) obtain ps src' where
    "options s OPTION_NAMES_screenshots = None \<and> ps = [] \<and> src' = Configuration
         \<or> options s OPTION_NAMES_screenshots = Some \<lparr>val = JObj ps, source = src'\<rparr>"
    by blast
  from prepare_upto_screenshots [OF this, of env]
  obtain s3 where s3: "setDefaultValues env (prepareFlags s) = Done s3"
      and frame: "\<forall>k. k \<notin> set OPTION_FLAG_NAMES \<union> set defaultValueNames \<union> {OPTION_NAMES_screenshots}
                   \<longrightarrow> options s3 k = options s k"
    by blast
  have co: "options s3 OPTION_NAMES_compilerOptions = options s OPTION_NAMES_compilerOptions"
    using frame by (simp add: OPTION_FLAG_NAMES_def defaultValueNames_def)
  have ts: "options s3 OPTION_NAMES_tsConfigPath = options s OPTION_NAMES_tsConfigPath"
    using frame by (simp add: OPTION_FLAG_NAMES_def defaultValueNames_def)
  then have ts': "getOption OPTION_NAMES_tsConfigPath s3 = getOption OPTION_NAMES_tsConfigPath s"
    by (rule getOption_cong)
  have run: "prepare env s = prepareCompilerOptions env s3"
    by (simp add: prepare_def s3)
  have "prepareCompilerOptions env s3
           = Done (s3\<lparr>options := (options s3)(OPTION_NAMES_compilerOptions \<mapsto>
               \<lparr>val = JObj (AList.update CustomizableCompilers_typescript
                         (Object_assign [(''configPath'', getOption OPTION_NAMES_tsConfigPath s3)]
                            (propOf cps CustomizableCompilers_typescript)) cps),
                source = (case options s3 OPTION_NAMES_compilerOptions of
                            None \<Rightarrow> Configuration | Some option \<Rightarrow> source option)\<rparr>)\<rparr>)"
    by (rule prepareCompilerOptions_merges) (use assms(2,3) in \<open>simp_all add: co ts'\<close>)
  then show ?thesis
    by (simp add: run co ts')
qed

section \<open>The override report\<close>

text \<open>
  C4: \<open>notifyAboutOverriddenOptions\<close> changes nothing when the override record is
  empty; when it is not, it writes exactly one message, rendered from the overridden
  names, and leaves the record empty and the options as they were; so a second call
  right after the first changes nothing (draining twice is draining once).
\<close>

theorem notifyAboutOverriddenOptions_drains:
  "(overriddenOptions s = [] \<longrightarrow> notifyAboutOverriddenOptions env s = s)
   \<and> (overriddenOptions s \<noteq> [] \<longrightarrow>
        console (notifyAboutOverriddenOptions env s) =
          console s @ [renderTemplate env (configOptionsWereOverridden env)
                         (getConcatenatedValuesString env (overriddenOptions s))
                         (getPluralSuffix env (overriddenOptions s))]
        \<and> overriddenOptions (notifyAboutOverriddenOptions env s) = []
        \<and> options (notifyAboutOverriddenOptions env s) = options s)
   \<and> notifyAboutOverriddenOptions env (notifyAboutOverriddenOptions env s)
       = notifyAboutOverriddenOptions env s"
  by (simp add: notifyAboutOverriddenOptions_def showConsoleWarning_def Let_def)

text \<open>
  C4 on a record holding \<open>src\<close> and \<open>speed\<close>: one message after the first call,
  still that one message after the second; and on an empty record nothing happens.
\<close>

theorem notifyAboutOverriddenOptions_drains_witness:
  "console (notifyAboutOverriddenOptions example_env
       ((Configuration_new [])\<lparr>overriddenOptions := [''src'', ''speed'']\<rparr>))
     = [''overridden: srcspeeds'']
   \<and> overriddenOptions (notifyAboutOverriddenOptions example_env
       ((Configuration_new [])\<lparr>overriddenOptions := [''src'', ''speed'']\<rparr>)) = []
   \<and> console (notifyAboutOverriddenOptions example_env (notifyAboutOverriddenOptions example_env
       ((Configuration_new [])\<lparr>overriddenOptions := [''src'', ''speed'']\<rparr>)))
     = [''overridden: srcspeeds'']
   \<and> notifyAboutOverriddenOptions example_env (Configuration_new []) = Configuration_new []"
  using notifyAboutOverriddenOptions_drains
          [of "(Configuration_new [])\<lparr>overriddenOptions := [''src'', ''speed'']\<rparr>" example_env]
        notifyAboutOverriddenOptions_drains [of "Configuration_new []" example_env]
  by (simp add: example_env_def Configuration_new_def)

section \<open>Promises, browsers and the merge\<close>

lemma baseFlatten_concat: "baseFlatten vs acc = acc @ concat (map expansion vs)"
  by (induction vs acc rule: baseFlatten.induct) (simp_all add: expansion_def)

lemma flatten_concat: "flatten vs = JArr (concat (map expansion vs)) []"
  by (simp add: flatten_def baseFlatten_concat)

lemma Promise_all_fulfilled_iff: "Promise_all (map Inr rs) out \<longleftrightarrow> out = Inr rs"
proof
  assume "Promise_all (map Inr rs) out"
  then show "out = Inr rs"
  proof cases
    case (fulfilled vs)
    then have "map Inr vs = (map Inr rs :: (error + 'a) list)" by simp
    then have "vs = rs" by simp
    with fulfilled show ?thesis by simp
  next
    case (rejected e)
    then show ?thesis by auto
  qed
next
  assume "out = Inr rs"
  then show "Promise_all (map Inr rs) out" by (simp add: Promise_all.fulfilled)
qed

lemma concat_block:
  assumes "i < length rs"
  shows "take (length (f (rs ! i))) (drop (length (concat (map f (take i rs)))) (concat (map f rs)))
           = f (rs ! i)"
proof -
  have "rs = take i rs @ rs ! i # drop (Suc i) rs"
    using assms by (rule id_take_nth_drop)
  then have "concat (map f rs) = concat (map f (take i rs)) @ f (rs ! i) @ concat (map f (drop (Suc i) rs))"
    by (metis concat.simps(2) concat_append list.simps(9) map_append)
  then show ?thesis by simp
qed


lemma Promise_all_total: "\<exists>r. Promise_all rs r"
proof (cases "\<exists>e. Inl e \<in> set rs")
  case True
  then show ?thesis by (auto intro: Promise_all.rejected)
next
  case False
  then have "\<forall>r\<in>set rs. \<exists>v. r = Inr v"
    by (metis sum.exhaust)
  then have "rs = map Inr (map projr rs)"
    by (induction rs) auto
  then show ?thesis
    by (metis Promise_all.fulfilled)
qed

lemma Promise_all_Inl_iff: "Promise_all rs (Inl e) \<longleftrightarrow> Inl e \<in> set rs"
  by (auto simp add: Promise_all.simps)

lemma Promise_all_Inr_iff: "Promise_all rs (Inr vs) \<longleftrightarrow> rs = map Inr vs"
  by (auto simp add: Promise_all.simps)

lemma getBrowserInfo_rejected_only:
  assumes "options s ''browsers'' = Some b" "truthy (val b)"
      and "x \<in> set (browsersOf (val b))" "browserProviderPool_getBrowserInfo env x = Inl e"
      and "getBrowserInfo env s r"
  shows "\<exists>e'. r = Inl e' \<and> (\<exists>y\<in>set (browsersOf (val b)). browserProviderPool_getBrowserInfo env y = Inl e')"
  using assms(5)
proof cases
  case no_option with assms(1) show ?thesis by simp
next
  case (no_value b') with assms(1,2) show ?thesis by simp
next
  case (resolved b' browserInfo)
  with assms(1) have "map (browserProviderPool_getBrowserInfo env) (browsersOf (val b)) = map Inr browserInfo"
    by (simp add: Promise_all_Inr_iff)
  then have "\<forall>y\<in>set (browsersOf (val b)). \<exists>v. browserProviderPool_getBrowserInfo env y = Inr v"
    by (metis (no_types, lifting) imageE image_eqI list.set_map)
  with assms(3,4) show ?thesis by force
next
  case (rejected b' e')
  with assms(1) have "Inl e' \<in> set (map (browserProviderPool_getBrowserInfo env) (browsersOf (val b)))"
    by (simp add: Promise_all_Inl_iff)
  then have "\<exists>y\<in>set (browsersOf (val b)). browserProviderPool_getBrowserInfo env y = Inl e'"
    by force
  with rejected show ?thesis by simp
qed

lemma getBrowserInfo_total: "\<exists>r. getBrowserInfo env s r"
proof (cases "options s ''browsers''")
  case None
  then show ?thesis by (auto intro: getBrowserInfo.no_option)
next
  case (Some b)
  show ?thesis
  proof (cases "truthy (val b)")
    case False
    with Some show ?thesis by (auto intro: getBrowserInfo.no_value)
  next
    case True
    obtain r where r: "Promise_all (map (browserProviderPool_getBrowserInfo env) (browsersOf (val b))) r"
      using Promise_all_total by blast
    show ?thesis
    proof (cases r)
      case (Inl e)
      with Some True r show ?thesis by (auto intro: getBrowserInfo.rejected)
    next
      case (Inr vs)
      with Some True r show ?thesis by (auto intro: getBrowserInfo.resolved)
    qed
  qed
qed

lemma asyncMergeOptions_total: "\<exists>out. asyncMergeOptions env opts s out"
proof (cases "options (mergeOptions (orEmpty opts) s) ''browsers''")
  case None
  then show ?thesis by (auto intro: asyncMergeOptions.no_browsers)
next
  case (Some b)
  obtain r where r: "getBrowserInfo env (mergeOptions (orEmpty opts) s) r"
    using getBrowserInfo_total by blast
  show ?thesis
  proof (cases r)
    case (Inl e)
    with Some r show ?thesis by (auto intro: asyncMergeOptions.browsers_failed)
  next
    case (Inr v)
    with Some r show ?thesis by (auto intro!: asyncMergeOptions.browsers_resolved)
  qed
qed

lemma init_iff:
  "init env opts s out \<longleftrightarrow>
     (case beforeMerge env s of
        Failed e s1 \<Rightarrow> out = Failed e s1
      | Done s1 \<Rightarrow> asyncMergeOptions env opts s1 out)"
  by (auto simp add: init.simps beforeMerge_def Let_def split: sum.splits option.splits outcome.splits)

lemma init_total: "\<exists>out. init env opts s out"
  using asyncMergeOptions_total [of env opts]
  by (cases "beforeMerge env s") (auto simp add: init_iff)

lemma asyncMergeOptions_rejected_only:
  assumes "options (mergeOptions (orEmpty opts) s0) ''browsers'' = Some b" "truthy (val b)"
      and "x \<in> set (browsersOf (val b))" "browserProviderPool_getBrowserInfo env x = Inl e"
      and "asyncMergeOptions env opts s0 out"
  shows "\<exists>e'. out = Failed e' (mergeOptions (orEmpty opts) s0)
            \<and> (\<exists>y\<in>set (browsersOf (val b)). browserProviderPool_getBrowserInfo env y = Inl e')"
  using assms(5)
proof cases
  case no_browsers with assms(1) show ?thesis by simp
next
  case (browsers_resolved s1 v)
  with getBrowserInfo_rejected_only [OF assms(1-4)] show ?thesis by blast
next
  case (browsers_failed s1 e')
  with getBrowserInfo_rejected_only [OF assms(1-4)] show ?thesis by blast
qed


text \<open>
  C5: browser resolution keeps the input order and flattens one level. When the browsers
  option holds no value (\<open>undefined\<close>, or any falsy value) the result is the empty
  array. Otherwise the specifiers are the elements of the array, or the single value as a
  one-element list; when the pool resolves them all, the only result is one flat array,
  the concatenation of the expansions in the order of the specifiers, so that the
  expansion of the \<open>i\<close>-th specifier is the block that starts where the
  expansions of the specifiers before it end.
\<close>

theorem getBrowserInfo_flat_in_order:
  assumes "options s ''browsers'' = Some b"
  shows "(\<not> truthy (val b) \<longrightarrow> (getBrowserInfo env s out \<longleftrightarrow> out = Inr (JArr [] [])))
       \<and> (truthy (val b) \<and> map (browserProviderPool_getBrowserInfo env) (browsersOf (val b)) = map Inr rs \<longrightarrow>
            (getBrowserInfo env s out \<longleftrightarrow> out = Inr (JArr (concat (map expansion rs)) []))
            \<and> (\<forall>i<length rs.
                 take (length (expansion (rs ! i)))
                      (drop (length (concat (map expansion (take i rs)))) (concat (map expansion rs)))
                   = expansion (rs ! i)))
       \<and> browsersOf (JArr bs ps) = bs
       \<and> ((\<forall>xs qs. v \<noteq> JArr xs qs) \<longrightarrow> browsersOf v = [v])"
proof (intro conjI impI allI)
  assume "\<not> truthy (val b)"
  with assms show "getBrowserInfo env s out \<longleftrightarrow> out = Inr (JArr [] [])"
    by (auto simp add: getBrowserInfo.simps)
next
  assume h: "truthy (val b) \<and> map (browserProviderPool_getBrowserInfo env) (browsersOf (val b)) = map Inr rs"
  with assms show "getBrowserInfo env s out \<longleftrightarrow> out = Inr (JArr (concat (map expansion rs)) [])"
    by (auto simp add: getBrowserInfo.simps Promise_all_fulfilled_iff flatten_concat)
next
  fix i assume "i < length rs"
  then show "take (length (expansion (rs ! i)))
                      (drop (length (concat (map expansion (take i rs)))) (concat (map expansion rs)))
                   = expansion (rs ! i)"
    by (rule concat_block)
next
  show "browsersOf (JArr bs ps) = bs" by (simp add: browsersOf_def)
next
  assume "\<forall>xs qs. v \<noteq> JArr xs qs"
  then show "browsersOf v = [v]" by (cases v) (simp_all add: browsersOf_def)
qed

text \<open>
  C5 on \<open>["chrome", "firefox"]\<close>, where chrome expands to two descriptors and
  firefox to one: chrome's two come first, then firefox's; on the single specifier
  \<open>"firefox"\<close>; and on an option without a value.
\<close>

theorem getBrowserInfo_flat_in_order_witness:
  "getBrowserInfo example_env
     (example_conf [(''browsers'', JArr [JStr ''chrome'', JStr ''firefox''] [])])
     (Inr (JArr [JStr ''chrome:stable'', JStr ''chrome:beta'', JStr ''firefox:stable''] []))
   \<and> getBrowserInfo example_env (example_conf [(''browsers'', JStr ''firefox'')])
        (Inr (JArr [JStr ''firefox:stable''] []))
   \<and> getBrowserInfo example_env (example_conf [(''browsers'', JUndefined)]) (Inr (JArr [] []))"
proof -
  have 1: "options (example_conf [(''browsers'', JArr [JStr ''chrome'', JStr ''firefox''] [])]) ''browsers''
             = Some \<lparr>val = JArr [JStr ''chrome'', JStr ''firefox''] [], source = Configuration\<rparr>"
    by (simp add: example_conf_def fromObj_def)
  have 2: "options (example_conf [(''browsers'', JStr ''firefox'')]) ''browsers''
             = Some \<lparr>val = JStr ''firefox'', source = Configuration\<rparr>"
    by (simp add: example_conf_def fromObj_def)
  have 3: "options (example_conf [(''browsers'', JUndefined)]) ''browsers''
             = Some \<lparr>val = JUndefined, source = Configuration\<rparr>"
    by (simp add: example_conf_def fromObj_def)
  show ?thesis
    using getBrowserInfo_flat_in_order [OF 1, where env = example_env
            and rs = "[JArr [JStr ''chrome:stable'', JStr ''chrome:beta''] [], JStr ''firefox:stable'']"
            and out = "Inr (JArr [JStr ''chrome:stable'', JStr ''chrome:beta'', JStr ''firefox:stable''] [])"]
          getBrowserInfo_flat_in_order [OF 2, where env = example_env
            and rs = "[JStr ''firefox:stable'']"
            and out = "Inr (JArr [JStr ''firefox:stable''] [])"]
          getBrowserInfo_flat_in_order [OF 3, where env = example_env
            and out = "Inr (JArr [] [])"]
    by (simp add: example_env_def browsersOf_def expansion_def)
qed


text \<open>
  C6: when the merged option set has a browsers value and the pool fails on one of its
  specifiers, \<open>asyncMergeOptions\<close> has an outcome and every outcome is a failure;
  the error is the one the pool raised for a specifier, unchanged, and the resolver is
  left as the merge left it, its browsers option still holding the unresolved value. The
  same holds for an \<open>init\<close> that gets as far as the merge.
\<close>

theorem browser_resolution_failure_aborts:
  assumes "options (mergeOptions (orEmpty opts) s0) ''browsers'' = Some b"
      and "truthy (val b)"
      and "x \<in> set (browsersOf (val b))"
      and "browserProviderPool_getBrowserInfo env x = Inl e"
  shows "(\<exists>out. asyncMergeOptions env opts s0 out)
       \<and> (\<forall>out. asyncMergeOptions env opts s0 out \<longrightarrow>
            (\<exists>e'. out = Failed e' (mergeOptions (orEmpty opts) s0)
                \<and> (\<exists>y\<in>set (browsersOf (val b)). browserProviderPool_getBrowserInfo env y = Inl e'))
            \<and> options (confOf out) ''browsers'' = Some b)
       \<and> (beforeMerge env s = Done s0 \<longrightarrow>
            (\<exists>out. init env opts s out)
          \<and> (\<forall>out. init env opts s out \<longrightarrow>
               (\<exists>e'. out = Failed e' (mergeOptions (orEmpty opts) s0)
                   \<and> (\<exists>y\<in>set (browsersOf (val b)). browserProviderPool_getBrowserInfo env y = Inl e'))
               \<and> options (confOf out) ''browsers'' = Some b))"
proof -
  have merge: "(\<exists>e'. out = Failed e' (mergeOptions (orEmpty opts) s0)
                \<and> (\<exists>y\<in>set (browsersOf (val b)). browserProviderPool_getBrowserInfo env y = Inl e'))
            \<and> options (confOf out) ''browsers'' = Some b"
    if "asyncMergeOptions env opts s0 out" for out
    using asyncMergeOptions_rejected_only [OF assms that] assms(1) by auto
  have "\<exists>out. asyncMergeOptions env opts s0 out"
    by (rule asyncMergeOptions_total)
  moreover have "\<exists>out. init env opts s out"
    by (rule init_total)
  moreover have "asyncMergeOptions env opts s0 out" if "beforeMerge env s = Done s0" "init env opts s out" for out
    using that by (simp add: init_iff)
  ultimately show ?thesis
    using merge by blast
qed

lemma example_pool_error:
  "browserProviderPool_getBrowserInfo example_env y = Inl e' \<Longrightarrow> e' = CollaboratorError ''unknown browser''"
  by (simp add: example_env_def split: if_splits)


text \<open>
  C6 on the runtime bag \<open>{browsers: ["chrome", "opera"]}\<close>, where the pool does
  not know opera: the call fails with the pool's error and the browsers option still
  holds the two specifiers.
\<close>

theorem browser_resolution_failure_aborts_witness:
  "asyncMergeOptions example_env (Some [(''browsers'', JArr [JStr ''chrome'', JStr ''opera''] [])])
     (Configuration_new [])
     (Failed (CollaboratorError ''unknown browser'')
        (mergeOptions [(''browsers'', JArr [JStr ''chrome'', JStr ''opera''] [])] (Configuration_new [])))
   \<and> getOption ''browsers''
        (mergeOptions [(''browsers'', JArr [JStr ''chrome'', JStr ''opera''] [])] (Configuration_new []))
       = JArr [JStr ''chrome'', JStr ''opera''] []"
proof -
  let ?bag = "[(''browsers'', JArr [JStr ''chrome'', JStr ''opera''] [])]"
  let ?b = "\<lparr>val = JArr [JStr ''chrome'', JStr ''opera''] [], source = DirectlySet\<rparr>"
  have opt: "options (mergeOptions (orEmpty (Some ?bag)) (Configuration_new [])) ''browsers'' = Some ?b"
    by (simp add: mergeOptions_def mergeOption_def orEmpty_def Configuration_new_def)
  have tr: "truthy (val ?b)" by simp
  have mem: "JStr ''opera'' \<in> set (browsersOf (val ?b))" by (simp add: browsersOf_def)
  have fails: "browserProviderPool_getBrowserInfo example_env (JStr ''opera'') = Inl (CollaboratorError ''unknown browser'')"
    by (simp add: example_env_def)
  note main = browser_resolution_failure_aborts [OF opt tr mem fails, where s = "Configuration_new []"]
  from main obtain out where out: "asyncMergeOptions example_env (Some ?bag) (Configuration_new []) out"
    by blast
  with main obtain e' y where "out = Failed e' (mergeOptions (orEmpty (Some ?bag)) (Configuration_new []))"
      and "browserProviderPool_getBrowserInfo example_env y = Inl e'"
    by blast
  then have "out = Failed (CollaboratorError ''unknown browser'') (mergeOptions ?bag (Configuration_new []))"
    using example_pool_error by (simp add: orEmpty_def)
  with out opt show ?thesis
    by (simp add: getOption_def orEmpty_def)
qed

section \<open>Merging an empty bag\<close>

lemma mergeOptions_empty: "opts = None \<or> opts = Some [] \<Longrightarrow> mergeOptions (orEmpty opts) s = s"
  by (auto simp add: mergeOptions_def orEmpty_def)

lemma asyncMergeOptions_empty_iff:
  assumes "opts = None \<or> opts = Some []"
  shows "asyncMergeOptions env opts s out \<longleftrightarrow>
           (options s ''browsers'' = None \<and> out = Done s)
         \<or> (options s ''browsers'' \<noteq> None \<and>
              ((\<exists>v. getBrowserInfo env s (Inr v) \<and> out = Done (assignValue ''browsers'' v s))
             \<or> (\<exists>e. getBrowserInfo env s (Inl e) \<and> out = Failed e s)))"
  using mergeOptions_empty [OF assms, of s]
  by (auto simp add: asyncMergeOptions.simps)


lemma example_browsers_run:
  "asyncMergeOptions example_env None
     (example_conf [(''browsers'', JStr ''chrome''), (''src'', JStr ''tests'')])
     (Done (assignValue ''browsers'' (JArr [JStr ''chrome:stable'', JStr ''chrome:beta''] [])
        (example_conf [(''browsers'', JStr ''chrome''), (''src'', JStr ''tests'')])))"
proof -
  let ?s = "example_conf [(''browsers'', JStr ''chrome''), (''src'', JStr ''tests'')]"
  have opt: "options ?s ''browsers'' = Some \<lparr>val = JStr ''chrome'', source = Configuration\<rparr>"
    by (simp add: example_conf_def fromObj_def)
  have "Promise_all (map (browserProviderPool_getBrowserInfo example_env) (browsersOf (JStr ''chrome'')))
          (Inr [JArr [JStr ''chrome:stable'', JStr ''chrome:beta''] []])"
    by (simp add: Promise_all_Inr_iff browsersOf_def example_env_def)
  with opt have "getBrowserInfo example_env ?s (Inr (flatten [JArr [JStr ''chrome:stable'', JStr ''chrome:beta''] []]))"
    by (intro getBrowserInfo.resolved [where b = "\<lparr>val = JStr ''chrome'', source = Configuration\<rparr>"]) simp_all
  then have "getBrowserInfo example_env ?s (Inr (JArr [JStr ''chrome:stable'', JStr ''chrome:beta''] []))"
    by (simp add: flatten_def)
  with opt show ?thesis
    by (auto simp add: asyncMergeOptions_empty_iff)
qed

text \<open>
  C2, as stated, fails: on an option set whose browsers option came from the configuration
  file, \<open>asyncMergeOptions()\<close> without a bag replaces the value \<open>"chrome"\<close> of
  that option by the array of resolved descriptors.
\<close>

theorem asyncMergeOptions_resolves_browsers_counterexample:
  "asyncMergeOptions example_env None
     (example_conf [(''browsers'', JStr ''chrome''), (''src'', JStr ''tests'')])
     (Done (assignValue ''browsers'' (JArr [JStr ''chrome:stable'', JStr ''chrome:beta''] [])
        (example_conf [(''browsers'', JStr ''chrome''), (''src'', JStr ''tests'')])))
   \<and> getOption ''browsers'' (example_conf [(''browsers'', JStr ''chrome''), (''src'', JStr ''tests'')])
       = JStr ''chrome''
   \<and> getOption ''browsers''
        (assignValue ''browsers'' (JArr [JStr ''chrome:stable'', JStr ''chrome:beta''] [])
          (example_conf [(''browsers'', JStr ''chrome''), (''src'', JStr ''tests'')]))
       = JArr [JStr ''chrome:stable'', JStr ''chrome:beta''] []"
  using example_browsers_run
  by (simp add: getOption_def assignValue_def example_conf_def fromObj_def)

text \<open>
  C2, amended: \<open>asyncMergeOptions\<close> with an absent or empty bag always has an
  outcome, and touches nothing but the value of the browsers option. Without a browsers
  option its only outcome is to return with the resolver unchanged. With one, it either
  returns with that option's value replaced by the resolved browsers, or fails with the
  resolver's error and the resolver unchanged. In every outcome the override record and
  the console are as before, every other option is as before (absent options stay
  absent: no default is applied), and the source of the browsers option is as before.
\<close>

theorem asyncMergeOptions_empty_bag:
  assumes "opts = None \<or> opts = Some []"
  shows "(\<exists>out. asyncMergeOptions env opts s out)
       \<and> (options s ''browsers'' = None \<longrightarrow> (asyncMergeOptions env opts s out \<longleftrightarrow> out = Done s))
       \<and> (asyncMergeOptions env opts s out \<longrightarrow>
            overriddenOptions (confOf out) = overriddenOptions s
          \<and> console (confOf out) = console s
          \<and> (\<forall>k. k \<noteq> ''browsers'' \<longrightarrow> options (confOf out) k = options s k)
          \<and> map_option source (options (confOf out) ''browsers'')
              = map_option source (options s ''browsers'')
          \<and> (options s ''browsers'' \<noteq> None \<longrightarrow>
                (\<exists>v. getBrowserInfo env s (Inr v) \<and> out = Done (assignValue ''browsers'' v s))
              \<or> (\<exists>e. getBrowserInfo env s (Inl e) \<and> out = Failed e s)))"
proof (intro conjI impI)
  show "\<exists>out. asyncMergeOptions env opts s out" by (rule asyncMergeOptions_total)
  show "asyncMergeOptions env opts s out \<longleftrightarrow> out = Done s" if "options s ''browsers'' = None"
    using that by (simp add: asyncMergeOptions_empty_iff [OF assms])
next
  assume run: "asyncMergeOptions env opts s out"
  then consider "out = Done s" | v where "out = Done (assignValue ''browsers'' v s)" | e where "out = Failed e s"
    by (auto simp add: asyncMergeOptions_empty_iff [OF assms])
  note shape = this
  show "overriddenOptions (confOf out) = overriddenOptions s"
    using shape by cases (simp_all add: assignValue_def)
  show "console (confOf out) = console s"
    using shape by cases (simp_all add: assignValue_def)
  show "\<forall>k. k \<noteq> ''browsers'' \<longrightarrow> options (confOf out) k = options s k"
    using shape by cases (simp_all add: assignValue_def)
  show "map_option source (options (confOf out) ''browsers'') = map_option source (options s ''browsers'')"
    using shape by cases (simp_all add: assignValue_def option.map_comp comp_def)
  show "(\<exists>v. getBrowserInfo env s (Inr v) \<and> out = Done (assignValue ''browsers'' v s))
              \<or> (\<exists>e. getBrowserInfo env s (Inl e) \<and> out = Failed e s)"
    if "options s ''browsers'' \<noteq> None"
    using that run by (auto simp add: asyncMergeOptions_empty_iff [OF assms])
qed

text \<open>
  C2, amended, on an empty bag over an option set without browsers, and on an absent bag
  over the option set \<open>{browsers: "chrome", src: "tests"}\<close> loaded from a file.
\<close>

theorem asyncMergeOptions_empty_bag_witness:
  "asyncMergeOptions example_env (Some []) (example_conf [(''src'', JStr ''tests'')])
     (Done (example_conf [(''src'', JStr ''tests'')]))
   \<and> overriddenOptions
        (assignValue ''browsers'' (JArr [JStr ''chrome:stable'', JStr ''chrome:beta''] [])
          (example_conf [(''browsers'', JStr ''chrome''), (''src'', JStr ''tests'')])) = []
   \<and> options
        (assignValue ''browsers'' (JArr [JStr ''chrome:stable'', JStr ''chrome:beta''] [])
          (example_conf [(''browsers'', JStr ''chrome''), (''src'', JStr ''tests'')])) ''src''
       = Some \<lparr>val = JStr ''tests'', source = Configuration\<rparr>
   \<and> map_option source (options
        (assignValue ''browsers'' (JArr [JStr ''chrome:stable'', JStr ''chrome:beta''] [])
          (example_conf [(''browsers'', JStr ''chrome''), (''src'', JStr ''tests'')])) ''browsers'')
       = Some Configuration"
proof -
  let ?s = "example_conf [(''browsers'', JStr ''chrome''), (''src'', JStr ''tests'')]"
  let ?out = "Done (assignValue ''browsers'' (JArr [JStr ''chrome:stable'', JStr ''chrome:beta''] []) ?s)"
  have none: "options (example_conf [(''src'', JStr ''tests'')]) ''browsers'' = None"
    by (simp add: example_conf_def fromObj_def)
  have before: "overriddenOptions ?s = []"
      "options ?s ''src'' = Some \<lparr>val = JStr ''tests'', source = Configuration\<rparr>"
      "map_option source (options ?s ''browsers'') = Some Configuration"
    by (simp_all add: example_conf_def fromObj_def Configuration_new_def)
  have 1: "asyncMergeOptions example_env (Some []) (example_conf [(''src'', JStr ''tests'')])
     (Done (example_conf [(''src'', JStr ''tests'')]))"
    using asyncMergeOptions_empty_bag [of "Some []" example_env "example_conf [(''src'', JStr ''tests'')]"
            "Done (example_conf [(''src'', JStr ''tests'')])"] none
    by simp
  have 2: "overriddenOptions (confOf ?out) = overriddenOptions ?s
         \<and> (\<forall>k. k \<noteq> ''browsers'' \<longrightarrow> options (confOf ?out) k = options ?s k)
         \<and> map_option source (options (confOf ?out) ''browsers'') = map_option source (options ?s ''browsers'')"
    using asyncMergeOptions_empty_bag [of None example_env ?s ?out] example_browsers_run
    by simp
  from 2 have "options (confOf ?out) ''src'' = options ?s ''src''" by simp
  with 1 2 before show ?thesis by simp
qed

section \<open>A missing configuration file\<close>

lemma loadFrom_explicit_missing:
  "isExplicitConfig s \<Longrightarrow> \<not> fileExists env filePath \<Longrightarrow>
   loadFrom env s (filePath # rest)
     = Inl (GeneralError RUNTIME_ERRORS_cannotFindTestcafeConfigurationFile filePath)"
  by (simp add: isConfigurationFileExists_def)

lemma loadFrom_none_exists:
  "\<not> isExplicitConfig s \<Longrightarrow> \<forall>filePath\<in>set paths. \<not> fileExists env filePath \<Longrightarrow>
   loadFrom env s paths = Inr None"
  by (induction paths) (simp_all add: isConfigurationFileExists_def)

lemma beforeMerge_explicit_missing:
  assumes "configFile \<noteq> []" "\<not> fileExists env configFile"
  shows "beforeMerge env (TestCafeConfiguration env configFile)
           = Failed (GeneralError RUNTIME_ERRORS_cannotFindTestcafeConfigurationFile configFile)
               (TestCafeConfiguration env configFile)"
proof -
  have "load env (TestCafeConfiguration env configFile)
          = Inl (GeneralError RUNTIME_ERRORS_cannotFindTestcafeConfigurationFile configFile)"
    using assms
    by (simp add: load_def TestCafeConfiguration_def Configuration_new_def isConfigurationFileExists_def)
  then show ?thesis
    by (simp add: beforeMerge_def Configuration_init_def)
qed

lemma beforeMerge_no_file:
  assumes "\<forall>ext\<in>set (CONFIGURATION_EXTENSIONS env). \<not> fileExists env (BASE_CONFIGURATION_FILENAME @ ext)"
  shows "beforeMerge env (TestCafeConfiguration env []) = Done (TestCafeConfiguration env [])"
proof -
  have "load env (TestCafeConfiguration env []) = Inr None"
    unfolding load_def
    by (rule loadFrom_none_exists)
       (use assms in \<open>auto simp add: TestCafeConfiguration_def Configuration_new_def CONFIGURATION_FILENAMES_def\<close>)
  then show ?thesis
    by (simp add: beforeMerge_def Configuration_init_def)
qed


text \<open>
  C3: on a resolver constructed with an explicit path at which no file exists, the only
  outcome of \<open>init\<close> is the failure "cannot find the configuration file", carrying
  that path. On a resolver constructed without a path, when none of the conventional
  files exists, \<open>init\<close> is the merge of the runtime options into the empty option
  set and raises no error for the missing file: it returns whenever the merged options
  hold no browsers to resolve, in particular when no runtime options are given.
\<close>

theorem init_missing_configuration_file:
  "(configFile \<noteq> [] \<and> \<not> fileExists env configFile \<longrightarrow>
      (init env opts (TestCafeConfiguration env configFile) out \<longleftrightarrow>
         out = Failed (GeneralError RUNTIME_ERRORS_cannotFindTestcafeConfigurationFile configFile)
                 (TestCafeConfiguration env configFile)))
   \<and> ((\<forall>ext\<in>set (CONFIGURATION_EXTENSIONS env). \<not> fileExists env (BASE_CONFIGURATION_FILENAME @ ext)) \<longrightarrow>
        (init env opts (TestCafeConfiguration env []) out \<longleftrightarrow>
           asyncMergeOptions env opts (TestCafeConfiguration env []) out)
      \<and> (options (mergeOptions (orEmpty opts) (TestCafeConfiguration env [])) ''browsers'' = None \<longrightarrow>
           (init env opts (TestCafeConfiguration env []) out \<longleftrightarrow>
              out = Done (mergeOptions (orEmpty opts) (TestCafeConfiguration env []))))
      \<and> (opts = None \<or> opts = Some [] \<longrightarrow>
           (init env opts (TestCafeConfiguration env []) out \<longleftrightarrow>
              out = Done (TestCafeConfiguration env []))))"
proof (intro conjI impI)
  assume "configFile \<noteq> [] \<and> \<not> fileExists env configFile"
  then show "init env opts (TestCafeConfiguration env configFile) out \<longleftrightarrow>
         out = Failed (GeneralError RUNTIME_ERRORS_cannotFindTestcafeConfigurationFile configFile)
                 (TestCafeConfiguration env configFile)"
    by (simp add: init_iff beforeMerge_explicit_missing)
next
  assume none: "\<forall>ext\<in>set (CONFIGURATION_EXTENSIONS env). \<not> fileExists env (BASE_CONFIGURATION_FILENAME @ ext)"
  show merge: "init env opts (TestCafeConfiguration env []) out \<longleftrightarrow>
           asyncMergeOptions env opts (TestCafeConfiguration env []) out"
    by (simp add: init_iff beforeMerge_no_file [OF none])
  show "init env opts (TestCafeConfiguration env []) out \<longleftrightarrow>
              out = Done (mergeOptions (orEmpty opts) (TestCafeConfiguration env []))"
    if "options (mergeOptions (orEmpty opts) (TestCafeConfiguration env [])) ''browsers'' = None"
    using that by (auto simp add: merge asyncMergeOptions.simps)
  show "init env opts (TestCafeConfiguration env []) out \<longleftrightarrow> out = Done (TestCafeConfiguration env [])"
    if "opts = None \<or> opts = Some []"
  proof -
    have "options (TestCafeConfiguration env []) ''browsers'' = None"
      by (simp add: TestCafeConfiguration_def Configuration_new_def)
    then show ?thesis
      using that by (auto simp add: merge asyncMergeOptions_empty_iff)
  qed
qed


text \<open>
  C3 with no file on disk: \<open>init\<close> on a resolver for \<open>"./nope.json"\<close> fails
  naming that path; \<open>init\<close> on a resolver without a path returns, with and
  without runtime options.
\<close>

theorem init_missing_configuration_file_witness:
  "init example_env None (TestCafeConfiguration example_env ''./nope.json'')
     (Failed (GeneralError RUNTIME_ERRORS_cannotFindTestcafeConfigurationFile ''./nope.json'')
        (TestCafeConfiguration example_env ''./nope.json''))
   \<and> init example_env None (TestCafeConfiguration example_env [])
        (Done (TestCafeConfiguration example_env []))
   \<and> init example_env (Some [(''speed'', JNum 1)]) (TestCafeConfiguration example_env [])
        (Done (mergeOptions [(''speed'', JNum 1)] (TestCafeConfiguration example_env [])))"
proof -
  have nofile: "\<And>filePath. \<not> fileExists example_env filePath"
    by (simp add: example_env_def)
  have nobrowsers: "options (mergeOptions (orEmpty (Some [(''speed'', JNum 1)])) (TestCafeConfiguration example_env []))
                      ''browsers'' = None"
    by (simp add: orEmpty_def mergeOptions_def mergeOption_def TestCafeConfiguration_def
        Configuration_new_def)
  have 1: "init example_env None (TestCafeConfiguration example_env ''./nope.json'')
     (Failed (GeneralError RUNTIME_ERRORS_cannotFindTestcafeConfigurationFile ''./nope.json'')
        (TestCafeConfiguration example_env ''./nope.json''))"
    using init_missing_configuration_file [of "''./nope.json''" example_env None
          "Failed (GeneralError RUNTIME_ERRORS_cannotFindTestcafeConfigurationFile ''./nope.json'')
             (TestCafeConfiguration example_env ''./nope.json'')"] nofile
    by simp
  have 2: "init example_env None (TestCafeConfiguration example_env [])
        (Done (TestCafeConfiguration example_env []))"
    using init_missing_configuration_file [of "''./nope.json''" example_env None
          "Done (TestCafeConfiguration example_env [])"] nofile
    by blast
  have 3: "init example_env (Some [(''speed'', JNum 1)]) (TestCafeConfiguration example_env [])
        (Done (mergeOptions [(''speed'', JNum 1)] (TestCafeConfiguration example_env [])))"
    using init_missing_configuration_file [of "''./nope.json''" example_env "Some [(''speed'', JNum 1)]"
          "Done (mergeOptions [(''speed'', JNum 1)] (TestCafeConfiguration example_env []))"]
          nofile nobrowsers
    by (auto simp add: orEmpty_def)
  from 1 2 3 show ?thesis by simp
qed

section \<open>Normalization after load\<close>

lemma prepareSslOptions_absent:
  "options t OPTION_NAMES_ssl = None \<Longrightarrow> prepareSslOptions env t = Done t"
  by (simp add: prepareSslOptions_def)

lemma prepareSslOptions_resolved:
  "options t OPTION_NAMES_ssl = Some so \<Longrightarrow> getSSLOptions env (val so) = Inr sv \<Longrightarrow>
   prepareSslOptions env t = Done (assignValue OPTION_NAMES_ssl sv t)"
  by (simp add: prepareSslOptions_def)

lemma prepareSslOptions_rejected:
  "options t OPTION_NAMES_ssl = Some so \<Longrightarrow> getSSLOptions env (val so) = Inl e \<Longrightarrow>
   prepareSslOptions env t = Failed e t"
  by (simp add: prepareSslOptions_def)

lemma prepareReporters_absent:
  "options t OPTION_NAMES_reporter = None \<Longrightarrow> prepareReporters env t = Done t"
  by (simp add: prepareReporters_def)

lemma prepareReporters_prepared:
  "options t OPTION_NAMES_reporter = Some ro \<Longrightarrow>
   utils_prepareReporters env (castArray (val ro)) = Inr rv \<Longrightarrow>
   prepareReporters env t = Done (assignValue OPTION_NAMES_reporter rv t)"
  by (simp add: prepareReporters_def)

lemma prepareReporters_rejected:
  "options t OPTION_NAMES_reporter = Some ro \<Longrightarrow>
   utils_prepareReporters env (castArray (val ro)) = Inl e \<Longrightarrow>
   prepareReporters env t = Failed e t"
  by (simp add: prepareReporters_def)

lemma prepareFilterFn_compiled:
  "options t OPTION_NAMES_filter = Some fo \<Longrightarrow> truthy (val fo) \<Longrightarrow>
   prepareGrep env OPTION_NAMES_filterTestGrep ''testGrep'' (val fo) = Inr v1 \<Longrightarrow>
   prepareGrep env OPTION_NAMES_filterFixtureGrep ''fixtureGrep'' v1 = Inr v2 \<Longrightarrow>
   getFilterFn env v2 = Inr fn \<Longrightarrow>
   prepareFilterFn env t = Done (assignValue OPTION_NAMES_filter fn t)"
  by (simp add: prepareFilterFn_def ensureOption_def Let_def)

lemma prepareFilterFn_rejected:
  assumes "options t OPTION_NAMES_filter = Some fo" and "truthy (val fo)"
      and "prepareGrep env OPTION_NAMES_filterTestGrep ''testGrep'' (val fo) = Inl e
         \<or> prepareGrep env OPTION_NAMES_filterTestGrep ''testGrep'' (val fo) = Inr v1
             \<and> prepareGrep env OPTION_NAMES_filterFixtureGrep ''fixtureGrep'' v1 = Inl e
         \<or> prepareGrep env OPTION_NAMES_filterTestGrep ''testGrep'' (val fo) = Inr v1
             \<and> prepareGrep env OPTION_NAMES_filterFixtureGrep ''fixtureGrep'' v1 = Inr v2
             \<and> getFilterFn env v2 = Inl e"
  shows "\<exists>s'. prepareFilterFn env t = Failed e s'"
  using assms by (auto simp add: prepareFilterFn_def ensureOption_def Let_def)

lemma prepareGrep_object:
  "prepareGrep env optionName field (JObj ps) =
     (if truthy (propOf ps field)
      then (case getGrepOptions env optionName (propOf ps field) of
              Inl e \<Rightarrow> Inl e
            | Inr g \<Rightarrow> Inr (JObj (AList.update field g ps)))
      else Inr (JObj ps))"
  by (simp add: prepareGrep_def propOf_def split: sum.split)

lemma normalize_ssl_failed:
  "\<not> isDone (prepareSslOptions env t) \<Longrightarrow>
   normalizeOptionsAfterLoad env t = prepareSslOptions env t"
  by (cases "prepareSslOptions env t") (simp_all add: normalizeOptionsAfterLoad_steps)

lemma normalize_filter_failed:
  "isDone (prepareSslOptions env t) \<Longrightarrow>
   \<not> isDone (prepareFilterFn env (prepareInitFlags (confOf (prepareSslOptions env t)))) \<Longrightarrow>
   normalizeOptionsAfterLoad env t
     = prepareFilterFn env (prepareInitFlags (confOf (prepareSslOptions env t)))"
  by (cases "prepareSslOptions env t";
      cases "prepareFilterFn env (prepareInitFlags (confOf (prepareSslOptions env t)))")
     (simp_all add: normalizeOptionsAfterLoad_steps)

lemma normalize_filter_through:
  "isDone (prepareSslOptions env t) \<Longrightarrow>
   isDone (prepareFilterFn env (prepareInitFlags (confOf (prepareSslOptions env t)))) \<Longrightarrow>
   normalizeOptionsAfterLoad env t
     = prepareReporters env
         (ensureArrayOption OPTION_NAMES_clientScripts
           (ensureArrayOption OPTION_NAMES_browsers
             (ensureArrayOption OPTION_NAMES_src
               (confOf (prepareFilterFn env (prepareInitFlags (confOf (prepareSslOptions env t))))))))"
  by (cases "prepareSslOptions env t";
      cases "prepareFilterFn env (prepareInitFlags (confOf (prepareSslOptions env t)))")
     (simp_all add: normalizeOptionsAfterLoad_steps)

text \<open>
  Past the SSL step, an option that is none of \<open>src\<close>, \<open>browsers\<close>,
  \<open>clientScripts\<close> and the reporter is, at the end, what the filter step left.
\<close>

lemma options_normalize_after_ssl:
  assumes "isDone (prepareSslOptions env t)"
      and "k \<notin> {OPTION_NAMES_src, OPTION_NAMES_browsers, OPTION_NAMES_clientScripts, OPTION_NAMES_reporter}"
  shows "options (confOf (normalizeOptionsAfterLoad env t)) k
           = options (confOf (prepareFilterFn env (prepareInitFlags (confOf (prepareSslOptions env t))))) k"
proof (cases "isDone (prepareFilterFn env (prepareInitFlags (confOf (prepareSslOptions env t))))")
  case True
  with assms show ?thesis
    by (simp add: normalize_filter_through options_prepareReporters_other options_ensureArrayOption)
next
  case False
  with assms show ?thesis
    by (simp add: normalize_filter_failed)
qed

lemma options_normalize_untouched:
  assumes "k \<notin> {OPTION_NAMES_ssl, OPTION_NAMES_filter, OPTION_NAMES_src, OPTION_NAMES_browsers,
                 OPTION_NAMES_clientScripts, OPTION_NAMES_reporter} \<union> set OPTION_INIT_FLAG_NAMES"
  shows "options (confOf (normalizeOptionsAfterLoad env t)) k = options t k"
proof (cases "isDone (prepareSslOptions env t)")
  case True
  from assms have k: "k \<notin> {OPTION_NAMES_src, OPTION_NAMES_browsers, OPTION_NAMES_clientScripts, OPTION_NAMES_reporter}"
      "k \<noteq> OPTION_NAMES_filter" "k \<noteq> OPTION_NAMES_ssl" "k \<notin> set OPTION_INIT_FLAG_NAMES"
    by simp_all
  show ?thesis
    by (simp add: options_normalize_after_ssl [OF True k(1)] options_prepareFilterFn_other
        options_prepareInitFlags_other options_prepareSslOptions_other k)
next
  case False
  then show ?thesis
    by (simp add: normalize_ssl_failed prepareSslOptions_failed)
qed

lemma overriddenOptions_fold_prepareFlag:
  "overriddenOptions (fold prepareFlag names s) = overriddenOptions s"
  by (induction names arbitrary: s)
     (simp_all add: prepareFlag_def ensureOption_def assignValue_def Let_def split: option.split)

lemma overriddenOptions_normalize:
  "overriddenOptions (confOf (normalizeOptionsAfterLoad env t)) = overriddenOptions t"
proof -
  have ssl: "overriddenOptions (confOf (prepareSslOptions env s)) = overriddenOptions s" for s
    by (simp add: prepareSslOptions_def assignValue_def split: option.split sum.split)
  have flags: "overriddenOptions (prepareInitFlags s) = overriddenOptions s" for s
    by (simp add: prepareInitFlags_def overriddenOptions_fold_prepareFlag)
  have flt: "overriddenOptions (confOf (prepareFilterFn env s)) = overriddenOptions s" for s
    by (simp add: prepareFilterFn_def ensureOption_def assignValue_def Let_def
        split: option.split sum.split)
  have arr: "overriddenOptions (ensureArrayOption n s) = overriddenOptions s" for n s
    by (simp add: ensureArrayOption_def assignValue_def split: option.split)
  have rep: "overriddenOptions (confOf (prepareReporters env s)) = overriddenOptions s" for s
    by (simp add: prepareReporters_def assignValue_def split: option.split sum.split)
  show ?thesis
  proof (cases "isDone (prepareSslOptions env t)")
    case False
    then show ?thesis by (simp add: normalize_ssl_failed ssl)
  next
    case True
    show ?thesis
    proof (cases "isDone (prepareFilterFn env (prepareInitFlags (confOf (prepareSslOptions env t))))")
      case False
      with True show ?thesis by (simp add: normalize_filter_failed flt flags ssl)
    next
      case through: True
      with True show ?thesis by (simp add: normalize_filter_through rep arr flt flags ssl)
    qed
  qed
qed

text \<open>
  C8: \<open>init\<close> runs the normalization once, on the content it loaded, before the
  merge, and does not run it when nothing was loaded: then \<open>init\<close> is the merge
  alone. The normalization is the steps SSL, init flags, filter, array shape of
  \<open>src\<close>, \<open>browsers\<close> and \<open>clientScripts\<close>, reporters, in this order:
  \<^item> when the SSL resolver fails, the normalization fails with its error and nothing
    has changed;
  \<^item> past the SSL step the SSL option holds what the resolver returned and every init
    flag is the boolean of its raw value, whatever happens later;
  \<^item> when the grep preprocessing or the filter compiler fails, the normalization fails
    with that error and \<open>src\<close>, \<open>browsers\<close>, \<open>clientScripts\<close> and the
    reporter are still as loaded;
  \<^item> past the filter step the filter option holds the predicate compiled from the
    filter with its grep patterns preprocessed (\<open>null\<close> at the source
    \<open>Configuration\<close> when there was none, a falsy filter as it was), and the three
    array options are arrays, whatever the reporter step does;
  \<^item> the reporter option then holds what the reporter preparer returned for the
    reporters as an array, and the normalization returns; when the preparer fails the
    normalization fails with its error and the reporter option is as loaded.
  No other option and no entry of the override record is touched.
\<close>

theorem normalization_after_load_order:
  "(load env (Configuration_init s) = Inr None \<longrightarrow>
      (init env opts s out \<longleftrightarrow> asyncMergeOptions env opts (Configuration_init s) out))
   \<and> (load env (Configuration_init s) = Inr (Some obj) \<longrightarrow>
        (init env opts s out \<longleftrightarrow>
           (case normalizeOptionsAfterLoad env ((Configuration_init s)\<lparr>options := fromObj obj\<rparr>) of
              Failed e s1 \<Rightarrow> out = Failed e s1
            | Done s1 \<Rightarrow> asyncMergeOptions env opts s1 out)))
   \<and> (options t OPTION_NAMES_ssl = Some so \<and> getSSLOptions env (val so) = Inl e \<longrightarrow>
        normalizeOptionsAfterLoad env t = Failed e t)
   \<and> (options t OPTION_NAMES_ssl = None
        \<or> options t OPTION_NAMES_ssl = Some so \<and> getSSLOptions env (val so) = Inr sv \<longrightarrow>
        options (confOf (normalizeOptionsAfterLoad env t)) OPTION_NAMES_ssl
          = map_option (\<lambda>option. option\<lparr>val := sv\<rparr>) (options t OPTION_NAMES_ssl)
      \<and> (\<forall>n\<in>set OPTION_INIT_FLAG_NAMES.
            getOption n (confOf (normalizeOptionsAfterLoad env t)) = JBool (truthy (getOption n t)))
      \<and> (options t OPTION_NAMES_filter = Some fo \<and> truthy (val fo)
          \<and> (prepareGrep env OPTION_NAMES_filterTestGrep ''testGrep'' (val fo) = Inl e
             \<or> prepareGrep env OPTION_NAMES_filterTestGrep ''testGrep'' (val fo) = Inr v1
                 \<and> prepareGrep env OPTION_NAMES_filterFixtureGrep ''fixtureGrep'' v1 = Inl e
             \<or> prepareGrep env OPTION_NAMES_filterTestGrep ''testGrep'' (val fo) = Inr v1
                 \<and> prepareGrep env OPTION_NAMES_filterFixtureGrep ''fixtureGrep'' v1 = Inr v2
                 \<and> getFilterFn env v2 = Inl e) \<longrightarrow>
            (\<exists>s'. normalizeOptionsAfterLoad env t = Failed e s')
          \<and> (\<forall>n\<in>{OPTION_NAMES_src, OPTION_NAMES_browsers, OPTION_NAMES_clientScripts,
                    OPTION_NAMES_reporter}.
                options (confOf (normalizeOptionsAfterLoad env t)) n = options t n))
      \<and> (options t OPTION_NAMES_filter = None \<and> fe = \<lparr>val = JNull, source = Configuration\<rparr>
          \<or> options t OPTION_NAMES_filter = Some fo \<and> \<not> truthy (val fo) \<and> fe = fo
          \<or> options t OPTION_NAMES_filter = Some fo \<and> truthy (val fo)
              \<and> prepareGrep env OPTION_NAMES_filterTestGrep ''testGrep'' (val fo) = Inr v1
              \<and> prepareGrep env OPTION_NAMES_filterFixtureGrep ''fixtureGrep'' v1 = Inr v2
              \<and> getFilterFn env v2 = Inr fn \<and> fe = fo\<lparr>val := fn\<rparr> \<longrightarrow>
            options (confOf (normalizeOptionsAfterLoad env t)) OPTION_NAMES_filter = Some fe
          \<and> (\<forall>n\<in>{OPTION_NAMES_src, OPTION_NAMES_browsers, OPTION_NAMES_clientScripts}.
                options (confOf (normalizeOptionsAfterLoad env t)) n
                  = map_option (\<lambda>option. option\<lparr>val := castArray (val option)\<rparr>) (options t n))
          \<and> (options t OPTION_NAMES_reporter = None \<longrightarrow>
                isDone (normalizeOptionsAfterLoad env t)
              \<and> options (confOf (normalizeOptionsAfterLoad env t)) OPTION_NAMES_reporter = None)
          \<and> (options t OPTION_NAMES_reporter = Some ro
              \<and> utils_prepareReporters env (castArray (val ro)) = Inr rv \<longrightarrow>
                isDone (normalizeOptionsAfterLoad env t)
              \<and> options (confOf (normalizeOptionsAfterLoad env t)) OPTION_NAMES_reporter
                  = Some (ro\<lparr>val := rv\<rparr>))
          \<and> (options t OPTION_NAMES_reporter = Some ro
              \<and> utils_prepareReporters env (castArray (val ro)) = Inl e \<longrightarrow>
                (\<exists>s'. normalizeOptionsAfterLoad env t = Failed e s')
              \<and> options (confOf (normalizeOptionsAfterLoad env t)) OPTION_NAMES_reporter = Some ro)))
   \<and> prepareGrep env optionName field (JObj ps) =
       (if truthy (propOf ps field)
        then (case getGrepOptions env optionName (propOf ps field) of
                Inl e \<Rightarrow> Inl e
              | Inr g \<Rightarrow> Inr (JObj (AList.update field g ps)))
        else Inr (JObj ps))
   \<and> (\<forall>k. k \<notin> {OPTION_NAMES_ssl, OPTION_NAMES_filter, OPTION_NAMES_src, OPTION_NAMES_browsers,
                  OPTION_NAMES_clientScripts, OPTION_NAMES_reporter} \<union> set OPTION_INIT_FLAG_NAMES \<longrightarrow>
          options (confOf (normalizeOptionsAfterLoad env t)) k = options t k)
   \<and> overriddenOptions (confOf (normalizeOptionsAfterLoad env t)) = overriddenOptions t"
  (is "?A \<and> ?B \<and> ?SslFails \<and> (?SslOk \<longrightarrow> ?SslEntry \<and> ?Flags \<and> (?FltFails \<longrightarrow> ?FltFailed)
        \<and> (?FltOk \<longrightarrow> ?FltEntry \<and> ?Arrays \<and> ?RepNone \<and> ?RepOk \<and> ?RepFails))
        \<and> ?Grep \<and> ?Frame \<and> ?Overridden")
proof (intro conjI)
  let ?N = "normalizeOptionsAfterLoad env t"
  let ?ssl = "prepareSslOptions env t"
  let ?u = "prepareInitFlags (confOf ?ssl)"
  let ?flt = "prepareFilterFn env ?u"
  let ?arr = "ensureArrayOption OPTION_NAMES_clientScripts
                (ensureArrayOption OPTION_NAMES_browsers
                  (ensureArrayOption OPTION_NAMES_src (confOf ?flt)))"
  show ?A
    by (simp add: init_iff beforeMerge_def)
  show ?B
    by (simp add: init_iff beforeMerge_def)
  show ?SslFails
    by (auto simp add: normalizeOptionsAfterLoad_steps prepareSslOptions_rejected)
  show ?Grep
    by (rule prepareGrep_object)
  show ?Frame
    by (intro allI impI options_normalize_untouched)
  show ?Overridden
    by (rule overriddenOptions_normalize)
  show "?SslOk \<longrightarrow> ?SslEntry \<and> ?Flags \<and> (?FltFails \<longrightarrow> ?FltFailed)
        \<and> (?FltOk \<longrightarrow> ?FltEntry \<and> ?Arrays \<and> ?RepNone \<and> ?RepOk \<and> ?RepFails)"
  proof
    assume sslOk: ?SslOk
    then have ssl: "isDone ?ssl"
      and sslEntry: "options (confOf ?ssl) OPTION_NAMES_ssl
                       = map_option (\<lambda>option. option\<lparr>val := sv\<rparr>) (options t OPTION_NAMES_ssl)"
      by (auto simp add: prepareSslOptions_absent prepareSslOptions_resolved options_assignValue)
    have u_other: "options ?u k = options t k"
      if "k \<noteq> OPTION_NAMES_ssl" "k \<notin> set OPTION_INIT_FLAG_NAMES" for k
      using that by (simp add: options_prepareInitFlags_other options_prepareSslOptions_other)
    have u_filter: "options ?u OPTION_NAMES_filter = options t OPTION_NAMES_filter"
      by (rule u_other) (simp_all add: OPTION_INIT_FLAG_NAMES_def)
    have flt_other: "options (confOf ?flt) k = options t k"
      if "k \<noteq> OPTION_NAMES_ssl" "k \<notin> set OPTION_INIT_FLAG_NAMES" "k \<noteq> OPTION_NAMES_filter" for k
      using that by (simp add: options_prepareFilterFn_other u_other)
    have entry: ?SslEntry
    proof -
      have "options (confOf ?N) OPTION_NAMES_ssl = options (confOf ?flt) OPTION_NAMES_ssl"
        by (rule options_normalize_after_ssl [OF ssl]) simp
      also have "\<dots> = options (confOf ?ssl) OPTION_NAMES_ssl"
        by (simp add: options_prepareFilterFn_other options_prepareInitFlags_other
            OPTION_INIT_FLAG_NAMES_def)
      finally show ?thesis by (simp add: sslEntry)
    qed
    have flags: ?Flags
    proof
      fix n assume n: "n \<in> set OPTION_INIT_FLAG_NAMES"
      have ne: "n \<noteq> OPTION_NAMES_src" "n \<noteq> OPTION_NAMES_browsers"
          "n \<noteq> OPTION_NAMES_clientScripts" "n \<noteq> OPTION_NAMES_reporter"
        using init_flag_names_not_ssl_filter [OF n] by simp_all
      have "getOption n (confOf ?N) = getOption n (confOf ?flt)"
        by (rule getOption_cong, rule options_normalize_after_ssl [OF ssl]) (simp add: ne)
      then show "getOption n (confOf ?N) = JBool (truthy (getOption n t))"
        by (simp add: flags_after_filter_step [OF n])
    qed
    have fltFails: "?FltFails \<longrightarrow> ?FltFailed"
    proof
      assume f: ?FltFails
      then have fo: "options ?u OPTION_NAMES_filter = Some fo" and tr: "truthy (val fo)"
        by (simp_all add: u_filter)
      from f have which:
        "prepareGrep env OPTION_NAMES_filterTestGrep ''testGrep'' (val fo) = Inl e
         \<or> prepareGrep env OPTION_NAMES_filterTestGrep ''testGrep'' (val fo) = Inr v1
             \<and> prepareGrep env OPTION_NAMES_filterFixtureGrep ''fixtureGrep'' v1 = Inl e
         \<or> prepareGrep env OPTION_NAMES_filterTestGrep ''testGrep'' (val fo) = Inr v1
             \<and> prepareGrep env OPTION_NAMES_filterFixtureGrep ''fixtureGrep'' v1 = Inr v2
             \<and> getFilterFn env v2 = Inl e"
        by (rule conjunct2 [THEN conjunct2])
      from prepareFilterFn_rejected [OF fo tr which]
      obtain s' where s': "?flt = Failed e s'" by blast
      then have N: "?N = Failed e s'"
        using ssl by (simp add: normalize_filter_failed)
      have "\<forall>n\<in>{OPTION_NAMES_src, OPTION_NAMES_browsers, OPTION_NAMES_clientScripts,
                    OPTION_NAMES_reporter}. options (confOf ?N) n = options t n"
      proof
        fix n assume "n \<in> {OPTION_NAMES_src, OPTION_NAMES_browsers, OPTION_NAMES_clientScripts,
                    OPTION_NAMES_reporter}"
        then have "options (confOf ?flt) n = options t n"
          by (intro flt_other) (auto simp add: OPTION_INIT_FLAG_NAMES_def)
        then show "options (confOf ?N) n = options t n"
          by (simp add: N s')
      qed
      with N show ?FltFailed by blast
    qed
    have fltOk: "?FltOk \<longrightarrow> ?FltEntry \<and> ?Arrays \<and> ?RepNone \<and> ?RepOk \<and> ?RepFails"
    proof
      assume ok: ?FltOk
      have flt: "isDone ?flt \<and> options (confOf ?flt) OPTION_NAMES_filter = Some fe"
        using ok
      proof (elim disjE conjE)
        assume "options t OPTION_NAMES_filter = None" "fe = \<lparr>val = JNull, source = Configuration\<rparr>"
        then show ?thesis
          by (simp add: prepareFilterFn_absent u_filter)
      next
        assume "options t OPTION_NAMES_filter = Some fo" "\<not> truthy (val fo)" "fe = fo"
        then show ?thesis
          by (simp add: prepareFilterFn_falsy [of ?u fo] u_filter)
      next
        assume a: "options t OPTION_NAMES_filter = Some fo" "truthy (val fo)"
            "prepareGrep env OPTION_NAMES_filterTestGrep ''testGrep'' (val fo) = Inr v1"
            "prepareGrep env OPTION_NAMES_filterFixtureGrep ''fixtureGrep'' v1 = Inr v2"
            "getFilterFn env v2 = Inr fn" "fe = fo\<lparr>val := fn\<rparr>"
        then have "?flt = Done (assignValue OPTION_NAMES_filter fn ?u)"
          by (intro prepareFilterFn_compiled [where fo = fo and ?v1.0 = v1 and ?v2.0 = v2])
             (simp_all add: u_filter)
        with a show ?thesis
          by (simp add: options_assignValue u_filter)
      qed
      then have through: "isDone ?flt" and fltEntry: "options (confOf ?flt) OPTION_NAMES_filter = Some fe"
        by simp_all
      have N: "?N = prepareReporters env ?arr"
        by (rule normalize_filter_through [OF ssl through])
      have e1: ?FltEntry
        by (simp add: N options_prepareReporters_other options_ensureArrayOption fltEntry)
      have arr_n: "options ?arr n = map_option (\<lambda>option. option\<lparr>val := castArray (val option)\<rparr>) (options t n)"
        if "n \<in> {OPTION_NAMES_src, OPTION_NAMES_browsers, OPTION_NAMES_clientScripts}" for n
      proof -
        from that have "options (confOf ?flt) n = options t n"
          by (intro flt_other) (auto simp add: OPTION_INIT_FLAG_NAMES_def)
        with that show ?thesis
          by (auto simp add: options_ensureArrayOption)
      qed
      have e2: ?Arrays
      proof
        fix n assume n: "n \<in> {OPTION_NAMES_src, OPTION_NAMES_browsers, OPTION_NAMES_clientScripts}"
        then have "options (confOf (prepareReporters env ?arr)) n = options ?arr n"
          by (intro options_prepareReporters_other) auto
        with arr_n [OF n] show "options (confOf ?N) n
                  = map_option (\<lambda>option. option\<lparr>val := castArray (val option)\<rparr>) (options t n)"
          by (simp add: N)
      qed
      have arr_rep: "options ?arr OPTION_NAMES_reporter = options t OPTION_NAMES_reporter"
        by (simp add: options_ensureArrayOption flt_other OPTION_INIT_FLAG_NAMES_def)
      have e3: ?RepNone
      proof
        assume "options t OPTION_NAMES_reporter = None"
        then have none: "options ?arr OPTION_NAMES_reporter = None"
          by (simp add: arr_rep)
        show "isDone ?N \<and> options (confOf ?N) OPTION_NAMES_reporter = None"
          by (simp add: N prepareReporters_absent [OF none] none)
      qed
      have e4: ?RepOk
      proof
        assume a: "options t OPTION_NAMES_reporter = Some ro
              \<and> utils_prepareReporters env (castArray (val ro)) = Inr rv"
        then have some: "options ?arr OPTION_NAMES_reporter = Some ro"
          by (simp add: arr_rep)
        from a have rv: "utils_prepareReporters env (castArray (val ro)) = Inr rv" by simp
        show "isDone ?N \<and> options (confOf ?N) OPTION_NAMES_reporter = Some (ro\<lparr>val := rv\<rparr>)"
          by (simp add: N prepareReporters_prepared [OF some rv] options_assignValue some)
      qed
      have e5: ?RepFails
      proof
        assume a: "options t OPTION_NAMES_reporter = Some ro
              \<and> utils_prepareReporters env (castArray (val ro)) = Inl e"
        then have some: "options ?arr OPTION_NAMES_reporter = Some ro"
          by (simp add: arr_rep)
        from a have rv: "utils_prepareReporters env (castArray (val ro)) = Inl e" by simp
        show "(\<exists>s'. ?N = Failed e s') \<and> options (confOf ?N) OPTION_NAMES_reporter = Some ro"
          by (simp add: N prepareReporters_rejected [OF some rv] some)
      qed
      from e1 e2 e3 e4 e5 show "?FltEntry \<and> ?Arrays \<and> ?RepNone \<and> ?RepOk \<and> ?RepFails"
        by (intro conjI)
    qed
    from entry flags fltFails fltOk
    show "?SslEntry \<and> ?Flags \<and> (?FltFails \<longrightarrow> ?FltFailed)
        \<and> (?FltOk \<longrightarrow> ?FltEntry \<and> ?Arrays \<and> ?RepNone \<and> ?RepOk \<and> ?RepFails)"
      by (intro conjI)
  qed
qed

lemma example_file_loaded:
  "load example_file_env (Configuration_init (TestCafeConfiguration example_file_env []))
     = Inr (Some example_file)"
  by (simp add: load_def Configuration_init_def TestCafeConfiguration_def Configuration_new_def
      CONFIGURATION_FILENAMES_def example_file_env_simps isConfigurationFileExists_def)

lemma example_nothing_loaded:
  "load example_env (Configuration_init (TestCafeConfiguration example_env [])) = Inr None"
  by (simp add: load_def Configuration_init_def TestCafeConfiguration_def Configuration_new_def
      CONFIGURATION_FILENAMES_def example_env_simps isConfigurationFileExists_def)

lemma example_file_options:
  "fromObj example_file k
     = (if k = ''ssl'' then Some \<lparr>val = JStr ''key=k;cert=c'', source = Configuration\<rparr>
        else if k = ''cache'' then Some \<lparr>val = JNum 1, source = Configuration\<rparr>
        else if k = ''filter''
          then Some \<lparr>val = JObj [(''testGrep'', JStr ''login'')], source = Configuration\<rparr>
        else if k = ''src'' then Some \<lparr>val = JStr ''tests'', source = Configuration\<rparr>
        else if k = ''reporter'' then Some \<lparr>val = JStr ''spec'', source = Configuration\<rparr>
        else None)"
  by (simp add: fromObj_def example_file_def)


text \<open>
  C8 run: without a file \<open>init\<close> returns the resolver as it was. With the file
  \<open>{ssl, cache: 1, filter: {testGrep: "login"}, src: "tests", reporter: "spec"}\<close>
  on disk the outcome of \<open>init\<close> is the outcome of the normalization, in which
  \<open>ssl\<close> holds the resolved options, \<open>cache\<close> is \<open>true\<close>, the filter is
  the compiled predicate, \<open>src\<close> is \<open>["tests"]\<close> and the reporter is what the
  preparer made of \<open>["spec"]\<close>. When the SSL resolver fails the loaded options are
  left untouched; when the filter compiler fails \<open>cache\<close> is already \<open>true\<close>
  and \<open>src\<close> is still the string; when the reporter preparer fails \<open>src\<close> is
  already an array and the reporter is still the string.
\<close>

theorem normalization_after_load_order_witness:
  "init example_env None (TestCafeConfiguration example_env []) (Done (TestCafeConfiguration example_env []))
   \<and> init example_file_env None (TestCafeConfiguration example_file_env [])
        (normalizeOptionsAfterLoad example_file_env
           ((Configuration_init (TestCafeConfiguration example_file_env []))\<lparr>options := fromObj example_file\<rparr>))
   \<and> options
        (confOf (normalizeOptionsAfterLoad example_file_env
           ((Configuration_init (TestCafeConfiguration example_file_env []))\<lparr>options := fromObj example_file\<rparr>)))
        ''ssl''
       = Some \<lparr>val = JObj [(''options'', JStr ''key=k;cert=c'')], source = Configuration\<rparr>
   \<and> getOption ''cache''
        (confOf (normalizeOptionsAfterLoad example_file_env
           ((Configuration_init (TestCafeConfiguration example_file_env []))\<lparr>options := fromObj example_file\<rparr>)))
       = JBool True
   \<and> options
        (confOf (normalizeOptionsAfterLoad example_file_env
           ((Configuration_init (TestCafeConfiguration example_file_env []))\<lparr>options := fromObj example_file\<rparr>)))
        ''filter''
       = Some \<lparr>val = JFn 0 [], source = Configuration\<rparr>
   \<and> options
        (confOf (normalizeOptionsAfterLoad example_file_env
           ((Configuration_init (TestCafeConfiguration example_file_env []))\<lparr>options := fromObj example_file\<rparr>)))
        ''src''
       = Some \<lparr>val = JArr [JStr ''tests''] [], source = Configuration\<rparr>
   \<and> options
        (confOf (normalizeOptionsAfterLoad example_file_env
           ((Configuration_init (TestCafeConfiguration example_file_env []))\<lparr>options := fromObj example_file\<rparr>)))
        ''reporter''
       = Some \<lparr>val = JObj [(''reporters'', JArr [JStr ''spec''] [])], source = Configuration\<rparr>
   \<and> normalizeOptionsAfterLoad
         (example_file_env\<lparr>getSSLOptions := (\<lambda>v. Inl (CollaboratorError ''bad certificate''))\<rparr>)
         ((Configuration_init (TestCafeConfiguration example_file_env []))\<lparr>options := fromObj example_file\<rparr>)
       = Failed (CollaboratorError ''bad certificate'')
           ((Configuration_init (TestCafeConfiguration example_file_env []))\<lparr>options := fromObj example_file\<rparr>)
   \<and> getOption ''cache''
        (confOf (normalizeOptionsAfterLoad
          (example_file_env\<lparr>getFilterFn := (\<lambda>v. Inl (CollaboratorError ''bad filter''))\<rparr>)
          ((Configuration_init (TestCafeConfiguration example_file_env []))\<lparr>options := fromObj example_file\<rparr>)))
       = JBool True
   \<and> options
        (confOf (normalizeOptionsAfterLoad
          (example_file_env\<lparr>getFilterFn := (\<lambda>v. Inl (CollaboratorError ''bad filter''))\<rparr>)
          ((Configuration_init (TestCafeConfiguration example_file_env []))\<lparr>options := fromObj example_file\<rparr>)))
        ''src''
       = Some \<lparr>val = JStr ''tests'', source = Configuration\<rparr>
   \<and> options
        (confOf (normalizeOptionsAfterLoad
          (example_file_env\<lparr>utils_prepareReporters := (\<lambda>v. Inl (CollaboratorError ''bad reporter''))\<rparr>)
          ((Configuration_init (TestCafeConfiguration example_file_env []))\<lparr>options := fromObj example_file\<rparr>)))
        ''src''
       = Some \<lparr>val = JArr [JStr ''tests''] [], source = Configuration\<rparr>
   \<and> options
        (confOf (normalizeOptionsAfterLoad
          (example_file_env\<lparr>utils_prepareReporters := (\<lambda>v. Inl (CollaboratorError ''bad reporter''))\<rparr>)
          ((Configuration_init (TestCafeConfiguration example_file_env []))\<lparr>options := fromObj example_file\<rparr>)))
        ''reporter''
       = Some \<lparr>val = JStr ''spec'', source = Configuration\<rparr>"
proof -
  let ?s0 = "TestCafeConfiguration example_env []"
  let ?sf = "TestCafeConfiguration example_file_env []"
  let ?t = "(Configuration_init ?sf)\<lparr>options := fromObj example_file\<rparr>"
  let ?N = "normalizeOptionsAfterLoad example_file_env ?t"
  let ?so = "\<lparr>val = JStr ''key=k;cert=c'', source = Configuration\<rparr>"
  let ?sv = "JObj [(''options'', JStr ''key=k;cert=c'')]"
  let ?fo = "\<lparr>val = JObj [(''testGrep'', JStr ''login'')], source = Configuration\<rparr>"
  let ?v1 = "JObj [(''testGrep'', JObj [(''regexp'', JStr ''login'')])]"
  let ?fn = "JFn 0 []"
  let ?ro = "\<lparr>val = JStr ''spec'', source = Configuration\<rparr>"
  let ?rv = "JObj [(''reporters'', JArr [JStr ''spec''] [])]"
  let ?envS = "example_file_env\<lparr>getSSLOptions := (\<lambda>v. Inl (CollaboratorError ''bad certificate''))\<rparr>"
  let ?envF = "example_file_env\<lparr>getFilterFn := (\<lambda>v. Inl (CollaboratorError ''bad filter''))\<rparr>"
  let ?envR = "example_file_env\<lparr>utils_prepareReporters := (\<lambda>v. Inl (CollaboratorError ''bad reporter''))\<rparr>"
  \<comment> \<open>nothing loaded\<close>
  have "asyncMergeOptions example_env None (Configuration_init ?s0) (Done ?s0)"
    by (simp add: asyncMergeOptions_empty_iff Configuration_init_def TestCafeConfiguration_def
        Configuration_new_def)
  with normalization_after_load_order [where env = example_env and s = ?s0 and opts = None
         and out = "Done ?s0", THEN conjunct1, THEN mp, OF example_nothing_loaded]
  have A: "init example_env None ?s0 (Done ?s0)"
    by simp
  \<comment> \<open>the loaded options\<close>
  have t: "options ?t ''ssl'' = Some ?so" "options ?t ''filter'' = Some ?fo"
      "options ?t ''reporter'' = Some ?ro" "getOption ''cache'' ?t = JNum 1"
      "options ?t ''src'' = Some \<lparr>val = JStr ''tests'', source = Configuration\<rparr>"
      "options ?t ''browsers'' = None"
    by (simp_all add: example_file_options getOption_def)
  \<comment> \<open>every step through\<close>
  have sslOk: "options ?t OPTION_NAMES_ssl = None
        \<or> options ?t OPTION_NAMES_ssl = Some ?so \<and> getSSLOptions example_file_env (val ?so) = Inr ?sv"
    by (simp add: example_file_options example_file_env_simps)
  have grep1: "prepareGrep example_file_env OPTION_NAMES_filterTestGrep ''testGrep'' (val ?fo) = Inr ?v1"
    by (simp add: prepareGrep_def example_file_env_simps)
  have grep2: "prepareGrep example_file_env OPTION_NAMES_filterFixtureGrep ''fixtureGrep'' ?v1 = Inr ?v1"
    by (simp add: prepareGrep_def)
  have fltOk: "options ?t OPTION_NAMES_filter = None \<and> ?fo\<lparr>val := ?fn\<rparr> = \<lparr>val = JNull, source = Configuration\<rparr>
          \<or> options ?t OPTION_NAMES_filter = Some ?fo \<and> \<not> truthy (val ?fo) \<and> ?fo\<lparr>val := ?fn\<rparr> = ?fo
          \<or> options ?t OPTION_NAMES_filter = Some ?fo \<and> truthy (val ?fo)
              \<and> prepareGrep example_file_env OPTION_NAMES_filterTestGrep ''testGrep'' (val ?fo) = Inr ?v1
              \<and> prepareGrep example_file_env OPTION_NAMES_filterFixtureGrep ''fixtureGrep'' ?v1 = Inr ?v1
              \<and> getFilterFn example_file_env ?v1 = Inr ?fn \<and> ?fo\<lparr>val := ?fn\<rparr> = ?fo\<lparr>val := ?fn\<rparr>"
    using grep1 grep2 by (simp add: example_file_options example_file_env_simps)
  have repOk: "options ?t OPTION_NAMES_reporter = Some ?ro
              \<and> utils_prepareReporters example_file_env (castArray (val ?ro)) = Inr ?rv"
    by (simp add: example_file_options example_file_env_simps castArray_def)
  note main = normalization_after_load_order [where env = example_file_env and s = ?sf and opts = None
      and out = ?N and obj = example_file and t = ?t and so = ?so and sv = ?sv and fo = ?fo
      and ?v1.0 = ?v1 and ?v2.0 = ?v1 and fn = ?fn and fe = "?fo\<lparr>val := ?fn\<rparr>"
      and ro = ?ro and rv = ?rv]
  note pastSsl = main [THEN conjunct2, THEN conjunct2, THEN conjunct2, THEN conjunct1, THEN mp, OF sslOk]
  note pastFilter = pastSsl [THEN conjunct2, THEN conjunct2, THEN conjunct2, THEN mp, OF fltOk]
  note reported = pastFilter [THEN conjunct2, THEN conjunct2, THEN conjunct2, THEN conjunct1, THEN mp, OF repOk]
  have C: "options (confOf ?N) ''ssl'' = Some \<lparr>val = ?sv, source = Configuration\<rparr>"
    using pastSsl [THEN conjunct1] by (simp add: example_file_options)
  have D: "getOption ''cache'' (confOf ?N) = JBool True"
    using bspec [OF pastSsl [THEN conjunct2, THEN conjunct1], of "''cache''"]
    by (simp add: OPTION_INIT_FLAG_NAMES_def getOption_def example_file_options)
  have E: "options (confOf ?N) ''filter'' = Some \<lparr>val = ?fn, source = Configuration\<rparr>"
    using pastFilter [THEN conjunct1] by simp
  have F: "options (confOf ?N) ''src'' = Some \<lparr>val = JArr [JStr ''tests''] [], source = Configuration\<rparr>"
    using bspec [OF pastFilter [THEN conjunct2, THEN conjunct1], of "''src''"]
    by (simp add: example_file_options castArray_def)
  have G: "options (confOf ?N) ''reporter'' = Some \<lparr>val = ?rv, source = Configuration\<rparr>"
    using reported [THEN conjunct2] by simp
  have "isDone ?N"
    using reported by (rule conjunct1)
  then have shape: "?N = Done (confOf ?N)"
    by (rule isDone_confOf)
  have "options (confOf ?N) ''browsers'' = None"
    using bspec [OF pastFilter [THEN conjunct2, THEN conjunct1], of "''browsers''"]
    by (simp add: example_file_options)
  then have "asyncMergeOptions example_file_env None (confOf ?N) (Done (confOf ?N))"
    by (simp add: asyncMergeOptions_empty_iff)
  moreover note main [THEN conjunct2, THEN conjunct1, THEN mp, OF example_file_loaded]
  ultimately have B: "init example_file_env None ?sf ?N"
    by (cases ?N) simp_all
  \<comment> \<open>the SSL resolver fails\<close>
  have sslFails: "options ?t OPTION_NAMES_ssl = Some ?so
      \<and> getSSLOptions ?envS (val ?so) = Inl (CollaboratorError ''bad certificate'')"
    by (simp add: example_file_options)
  note normalization_after_load_order [where env = ?envS and t = ?t and so = ?so
      and e = "CollaboratorError ''bad certificate''",
      THEN conjunct2, THEN conjunct2, THEN conjunct1, THEN mp, OF sslFails]
  then have H: "normalizeOptionsAfterLoad ?envS ?t = Failed (CollaboratorError ''bad certificate'') ?t" .
  \<comment> \<open>the filter compiler fails\<close>
  have sslOkF: "options ?t OPTION_NAMES_ssl = None
        \<or> options ?t OPTION_NAMES_ssl = Some ?so \<and> getSSLOptions ?envF (val ?so) = Inr ?sv"
    by (simp add: example_file_options example_file_env_def)
  have grep1F: "prepareGrep ?envF OPTION_NAMES_filterTestGrep ''testGrep'' (val ?fo) = Inr ?v1"
    by (simp add: prepareGrep_def example_file_env_def)
  have grep2F: "prepareGrep ?envF OPTION_NAMES_filterFixtureGrep ''fixtureGrep'' ?v1 = Inr ?v1"
    by (simp add: prepareGrep_def)
  have fltFails: "options ?t OPTION_NAMES_filter = Some ?fo \<and> truthy (val ?fo)
          \<and> (prepareGrep ?envF OPTION_NAMES_filterTestGrep ''testGrep'' (val ?fo)
                = Inl (CollaboratorError ''bad filter'')
             \<or> prepareGrep ?envF OPTION_NAMES_filterTestGrep ''testGrep'' (val ?fo) = Inr ?v1
                 \<and> prepareGrep ?envF OPTION_NAMES_filterFixtureGrep ''fixtureGrep'' ?v1
                      = Inl (CollaboratorError ''bad filter'')
             \<or> prepareGrep ?envF OPTION_NAMES_filterTestGrep ''testGrep'' (val ?fo) = Inr ?v1
                 \<and> prepareGrep ?envF OPTION_NAMES_filterFixtureGrep ''fixtureGrep'' ?v1 = Inr ?v1
                 \<and> getFilterFn ?envF ?v1 = Inl (CollaboratorError ''bad filter''))"
    using grep1F grep2F by (simp add: example_file_options)
  note mainF = normalization_after_load_order [where env = ?envF and t = ?t and so = ?so and sv = ?sv
      and fo = ?fo and ?v1.0 = ?v1 and ?v2.0 = ?v1 and e = "CollaboratorError ''bad filter''"]
  note pastSslF = mainF [THEN conjunct2, THEN conjunct2, THEN conjunct2, THEN conjunct1, THEN mp, OF sslOkF]
  note failedF = pastSslF [THEN conjunct2, THEN conjunct2, THEN conjunct1, THEN mp, OF fltFails]
  have I: "getOption ''cache'' (confOf (normalizeOptionsAfterLoad ?envF ?t)) = JBool True"
    using bspec [OF pastSslF [THEN conjunct2, THEN conjunct1], of "''cache''"]
    by (simp add: OPTION_INIT_FLAG_NAMES_def getOption_def example_file_options)
  have J: "options (confOf (normalizeOptionsAfterLoad ?envF ?t)) ''src''
             = Some \<lparr>val = JStr ''tests'', source = Configuration\<rparr>"
    using bspec [OF failedF [THEN conjunct2], of "''src''"] by (simp add: example_file_options)
  \<comment> \<open>the reporter preparer fails\<close>
  have sslOkR: "options ?t OPTION_NAMES_ssl = None
        \<or> options ?t OPTION_NAMES_ssl = Some ?so \<and> getSSLOptions ?envR (val ?so) = Inr ?sv"
    by (simp add: example_file_options example_file_env_def)
  have grep1R: "prepareGrep ?envR OPTION_NAMES_filterTestGrep ''testGrep'' (val ?fo) = Inr ?v1"
    by (simp add: prepareGrep_def example_file_env_def)
  have grep2R: "prepareGrep ?envR OPTION_NAMES_filterFixtureGrep ''fixtureGrep'' ?v1 = Inr ?v1"
    by (simp add: prepareGrep_def)
  have fltOkR: "options ?t OPTION_NAMES_filter = None \<and> ?fo\<lparr>val := ?fn\<rparr> = \<lparr>val = JNull, source = Configuration\<rparr>
          \<or> options ?t OPTION_NAMES_filter = Some ?fo \<and> \<not> truthy (val ?fo) \<and> ?fo\<lparr>val := ?fn\<rparr> = ?fo
          \<or> options ?t OPTION_NAMES_filter = Some ?fo \<and> truthy (val ?fo)
              \<and> prepareGrep ?envR OPTION_NAMES_filterTestGrep ''testGrep'' (val ?fo) = Inr ?v1
              \<and> prepareGrep ?envR OPTION_NAMES_filterFixtureGrep ''fixtureGrep'' ?v1 = Inr ?v1
              \<and> getFilterFn ?envR ?v1 = Inr ?fn \<and> ?fo\<lparr>val := ?fn\<rparr> = ?fo\<lparr>val := ?fn\<rparr>"
    using grep1R grep2R by (simp add: example_file_options example_file_env_def example_env_def)
  have repFails: "options ?t OPTION_NAMES_reporter = Some ?ro
              \<and> utils_prepareReporters ?envR (castArray (val ?ro)) = Inl (CollaboratorError ''bad reporter'')"
    by (simp add: example_file_options)
  note mainR = normalization_after_load_order [where env = ?envR and t = ?t and so = ?so and sv = ?sv
      and fo = ?fo and ?v1.0 = ?v1 and ?v2.0 = ?v1 and fn = ?fn and fe = "?fo\<lparr>val := ?fn\<rparr>"
      and ro = ?ro and e = "CollaboratorError ''bad reporter''"]
  note pastSslR = mainR [THEN conjunct2, THEN conjunct2, THEN conjunct2, THEN conjunct1, THEN mp, OF sslOkR]
  note pastFilterR = pastSslR [THEN conjunct2, THEN conjunct2, THEN conjunct2, THEN mp, OF fltOkR]
  note failedR = pastFilterR [THEN conjunct2, THEN conjunct2, THEN conjunct2, THEN conjunct2, THEN mp,
                              OF repFails]
  have K: "options (confOf (normalizeOptionsAfterLoad ?envR ?t)) ''src''
             = Some \<lparr>val = JArr [JStr ''tests''] [], source = Configuration\<rparr>"
    using bspec [OF pastFilterR [THEN conjunct2, THEN conjunct1], of "''src''"]
    by (simp add: example_file_options castArray_def)
  have L: "options (confOf (normalizeOptionsAfterLoad ?envR ?t)) ''reporter''
             = Some \<lparr>val = JStr ''spec'', source = Configuration\<rparr>"
    using failedR [THEN conjunct2] .
  from A B C D E F G H I J K L show ?thesis
    by (intro conjI)
qed

text \<open>
  C10: after the normalization has run through, the option set has a filter entry; when
  the loaded content had none, the entry is the value \<open>null\<close> with the source
  \<open>Configuration\<close>. The filter step itself creates that entry and returns, and it
  leaves a filter that holds \<open>null\<close> as it is.
\<close>

theorem filter_entry_after_normalization:
  "(isDone (normalizeOptionsAfterLoad env s) \<longrightarrow>
      options (confOf (normalizeOptionsAfterLoad env s)) OPTION_NAMES_filter \<noteq> None
    \<and> (options s OPTION_NAMES_filter = None \<longrightarrow>
         options (confOf (normalizeOptionsAfterLoad env s)) OPTION_NAMES_filter
           = Some \<lparr>val = JNull, source = Configuration\<rparr>))
   \<and> (options s OPTION_NAMES_filter = None \<longrightarrow>
        prepareFilterFn env s
          = Done (s\<lparr>options := (options s)(OPTION_NAMES_filter \<mapsto> \<lparr>val = JNull, source = Configuration\<rparr>)\<rparr>))
   \<and> (getOption OPTION_NAMES_filter s = JNull \<longrightarrow>
        getOption OPTION_NAMES_filter (confOf (prepareFilterFn env s)) = JNull)"
proof (intro conjI impI)
  assume fin: "isDone (normalizeOptionsAfterLoad env s)"
  let ?ssl = "prepareSslOptions env s"
  let ?flt = "prepareFilterFn env (prepareInitFlags (confOf ?ssl))"
  let ?arr = "ensureArrayOption OPTION_NAMES_clientScripts
                (ensureArrayOption OPTION_NAMES_browsers
                  (ensureArrayOption OPTION_NAMES_src (confOf ?flt)))"
  from fin have ssl: "isDone ?ssl"
    by (cases ?ssl) (simp_all add: normalizeOptionsAfterLoad_steps)
  with fin have flt: "isDone ?flt"
    by (cases ?ssl; cases ?flt) (simp_all add: normalizeOptionsAfterLoad_steps)
  from ssl flt have N: "normalizeOptionsAfterLoad env s = prepareReporters env ?arr"
    by (cases ?ssl; cases ?flt) (simp_all add: normalizeOptionsAfterLoad_steps)
  have keep: "options (confOf (normalizeOptionsAfterLoad env s)) OPTION_NAMES_filter
                = options (confOf ?flt) OPTION_NAMES_filter"
    by (simp add: N options_prepareReporters_other options_ensureArrayOption)
  show "options (confOf (normalizeOptionsAfterLoad env s)) OPTION_NAMES_filter \<noteq> None"
    by (simp add: keep options_prepareFilterFn_filter)
  show "options (confOf (normalizeOptionsAfterLoad env s)) OPTION_NAMES_filter
           = Some \<lparr>val = JNull, source = Configuration\<rparr>"
    if absent: "options s OPTION_NAMES_filter = None"
  proof -
    have "options (prepareInitFlags (confOf ?ssl)) OPTION_NAMES_filter = None"
      using absent
      by (simp add: options_prepareInitFlags_other options_prepareSslOptions_other
          OPTION_INIT_FLAG_NAMES_def)
    then show ?thesis
      by (simp add: keep prepareFilterFn_absent)
  qed
next
  show "prepareFilterFn env s
          = Done (s\<lparr>options := (options s)(OPTION_NAMES_filter \<mapsto> \<lparr>val = JNull, source = Configuration\<rparr>)\<rparr>)"
    if "options s OPTION_NAMES_filter = None"
    using that by (rule prepareFilterFn_absent)
  show "getOption OPTION_NAMES_filter (confOf (prepareFilterFn env s)) = JNull"
    if "getOption OPTION_NAMES_filter s = JNull"
    using that
    by (cases "options s OPTION_NAMES_filter")
       (simp_all add: getOption_def prepareFilterFn_absent prepareFilterFn_falsy)
qed

text \<open>
  C10 on content loaded without a filter, and on a filter that holds \<open>null\<close>.
\<close>

theorem filter_entry_after_normalization_witness:
  "options (confOf (normalizeOptionsAfterLoad example_env (example_conf [(''src'', JStr ''tests'')])))
       OPTION_NAMES_filter
     = Some \<lparr>val = JNull, source = Configuration\<rparr>
   \<and> isDone (prepareFilterFn example_env (example_conf [(''src'', JStr ''tests'')]))
   \<and> getOption OPTION_NAMES_filter
        (confOf (prepareFilterFn example_env (example_conf [(''filter'', JNull)]))) = JNull"
proof -
  let ?s = "example_conf [(''src'', JStr ''tests'')]"
  have absent: "options ?s OPTION_NAMES_filter = None"
    by (simp add: example_conf_def fromObj_def)
  have ssl: "prepareSslOptions example_env ?s = Done ?s"
    by (simp add: prepareSslOptions_def example_conf_def fromObj_def)
  have rep: "\<And>t. options t OPTION_NAMES_reporter = None \<Longrightarrow> prepareReporters example_env t = Done t"
    by (simp add: prepareReporters_def)
  have norep: "options ?s OPTION_NAMES_reporter = None"
    by (simp add: example_conf_def fromObj_def)
  have ran: "isDone (normalizeOptionsAfterLoad example_env ?s)"
    by (simp add: normalizeOptionsAfterLoad_steps ssl prepareFilterFn_absent rep
        options_prepareInitFlags_other options_ensureArrayOption OPTION_INIT_FLAG_NAMES_def
        absent norep)
  have null: "getOption OPTION_NAMES_filter (example_conf [(''filter'', JNull)]) = JNull"
    by (simp add: getOption_def example_conf_def fromObj_def)
  show ?thesis
    using filter_entry_after_normalization [of example_env ?s] ran absent
          filter_entry_after_normalization [of example_env "example_conf [(''filter'', JNull)]"] null
    by simp
qed

section \<open>Screenshots defaults\<close>

text \<open>
  C9, as stated, fails: a screenshots object whose \<open>path\<close> is defined as the empty
  string does not keep it; preparation overwrites it with the default directory.
\<close>

theorem prepare_overwrites_empty_path_counterexample:
  "get_prop (getOption OPTION_NAMES_screenshots
       (example_conf [(''screenshots'', JObj [(''path'', JStr [])])])) ''path''
     = Inr (JStr [])
   \<and> get_prop (getOption OPTION_NAMES_screenshots
       (confOf (prepare example_env (example_conf [(''screenshots'', JObj [(''path'', JStr [])])])))) ''path''
     = Inr (JStr ''/cwd/screenshots'')"
proof -
  have opt: "options (example_conf [(''screenshots'', JObj [(''path'', JStr [])])]) OPTION_NAMES_screenshots
               = Some \<lparr>val = JObj [(''path'', JStr [])], source = Configuration\<rparr>"
    by (simp add: example_conf_def fromObj_def)
  have "options (confOf (prepare example_env (example_conf [(''screenshots'', JObj [(''path'', JStr [])])])))
          OPTION_NAMES_screenshots
        = Some \<lparr>val = JObj (fillScreenshots example_env [(''path'', JStr [])]), source = Configuration\<rparr>"
    by (rule prepare_screenshots_value) (simp add: opt)
  with opt show ?thesis
    by (simp add: getOption_def map_of_fillScreenshots propOf_def example_env_def)
qed


text \<open>
  C9, amended: when the screenshots option is unset, or holds an object, preparation
  leaves an object in it, at the source the option had (\<open>Configuration\<close> when it
  was unset). Its \<open>path\<close> is the resolved default screenshots directory when the
  path was missing or falsy, and the prior path otherwise; its \<open>thumbnails\<close> is the
  default thumbnail flag when thumbnails was missing or \<open>undefined\<close>, and the
  prior value otherwise; every other field is as it was.
\<close>

theorem prepare_fills_screenshots:
  assumes "options s OPTION_NAMES_screenshots = None \<and> ps = [] \<and> src = Configuration
         \<or> options s OPTION_NAMES_screenshots = Some \<lparr>val = JObj ps, source = src\<rparr>"
  shows "\<exists>ps'. options (confOf (prepare env s)) OPTION_NAMES_screenshots
                 = Some \<lparr>val = JObj ps', source = src\<rparr>
           \<and> map_of ps' ''path'' =
               (if truthy (propOf ps ''path'') then map_of ps ''path''
                else Some (JStr (resolvePathRelativelyCwd env DEFAULT_SCREENSHOTS_DIRECTORY)))
           \<and> map_of ps' ''thumbnails'' =
               (if propOf ps ''thumbnails'' = JUndefined
                then Some (JBool (DEFAULT_SCREENSHOT_THUMBNAILS env))
                else map_of ps ''thumbnails'')
           \<and> (\<forall>k. k \<noteq> ''path'' \<and> k \<noteq> ''thumbnails'' \<longrightarrow> map_of ps' k = map_of ps k)"
  using prepare_screenshots_value [OF assms, of env]
  by (intro exI [of _ "fillScreenshots env ps"]) (simp add: map_of_fillScreenshots)


text \<open>
  C9, amended, on \<open>{thumbnails: false}\<close>, where the path is filled and thumbnails
  stays \<open>false\<close>, and on an unset option, where both defaults are filled.
\<close>

theorem prepare_fills_screenshots_witness:
  "(\<exists>ps'. options (confOf (prepare example_env
              (example_conf [(''screenshots'', JObj [(''thumbnails'', JBool False)])]))) OPTION_NAMES_screenshots
            = Some \<lparr>val = JObj ps', source = Configuration\<rparr>
        \<and> map_of ps' ''path'' = Some (JStr ''/cwd/screenshots'')
        \<and> map_of ps' ''thumbnails'' = Some (JBool False))
   \<and> (\<exists>ps'. options (confOf (prepare example_env (example_conf []))) OPTION_NAMES_screenshots
            = Some \<lparr>val = JObj ps', source = Configuration\<rparr>
        \<and> map_of ps' ''path'' = Some (JStr ''/cwd/screenshots'')
        \<and> map_of ps' ''thumbnails'' = Some (JBool True))"
proof -
  have 1: "options (example_conf [(''screenshots'', JObj [(''thumbnails'', JBool False)])]) OPTION_NAMES_screenshots
             = Some \<lparr>val = JObj [(''thumbnails'', JBool False)], source = Configuration\<rparr>"
    by (simp add: example_conf_def fromObj_def)
  have 2: "options (example_conf []) OPTION_NAMES_screenshots = None"
    by (simp add: example_conf_def fromObj_def)
  have env: "resolvePathRelativelyCwd example_env DEFAULT_SCREENSHOTS_DIRECTORY = ''/cwd/screenshots''"
      "DEFAULT_SCREENSHOT_THUMBNAILS example_env = True"
    by (simp_all add: example_env_def)
  from prepare_fills_screenshots [OF disjI2, OF 1, of example_env]
  have A: "\<exists>ps'. options (confOf (prepare example_env
              (example_conf [(''screenshots'', JObj [(''thumbnails'', JBool False)])]))) OPTION_NAMES_screenshots
            = Some \<lparr>val = JObj ps', source = Configuration\<rparr>
        \<and> map_of ps' ''path'' = Some (JStr ''/cwd/screenshots'')
        \<and> map_of ps' ''thumbnails'' = Some (JBool False)"
    by (auto simp add: propOf_def env)
  from prepare_fills_screenshots [OF disjI1, of "example_conf []" "[]" Configuration example_env] 2
  have B: "\<exists>ps'. options (confOf (prepare example_env (example_conf []))) OPTION_NAMES_screenshots
            = Some \<lparr>val = JObj ps', source = Configuration\<rparr>
        \<and> map_of ps' ''path'' = Some (JStr ''/cwd/screenshots'')
        \<and> map_of ps' ''thumbnails'' = Some (JBool True)"
    by (auto simp add: propOf_def env)
  from A B show ?thesis by simp
qed

section \<open>TypeScript compiler options\<close>

text \<open>
  C1, as stated, fails: when the pre-existing typescript options have a \<open>configPath\<close>
  of their own, preparation keeps it; the path of the \<open>tsConfigPath\<close> option is
  not what \<open>configPath\<close> is set from.
\<close>

theorem prepare_keeps_own_configPath_counterexample:
  "getOption OPTION_NAMES_tsConfigPath
     (example_conf [(''compilerOptions'', JObj [(''typescript'', JObj [(''configPath'', JStr ''own.json'')])]),
                    (''tsConfigPath'', JStr ''tsconfig.json'')])
     = JStr ''tsconfig.json''
   \<and> getOption OPTION_NAMES_compilerOptions
       (confOf (prepare example_env
         (example_conf [(''compilerOptions'', JObj [(''typescript'', JObj [(''configPath'', JStr ''own.json'')])]),
                        (''tsConfigPath'', JStr ''tsconfig.json'')])))
     = JObj [(''typescript'', JObj [(''configPath'', JStr ''own.json'')])]"
proof -
  let ?s = "example_conf [(''compilerOptions'', JObj [(''typescript'', JObj [(''configPath'', JStr ''own.json'')])]),
                        (''tsConfigPath'', JStr ''tsconfig.json'')]"
  have s: "options ?s OPTION_NAMES_screenshots = None"
      "options ?s OPTION_NAMES_compilerOptions
         = Some \<lparr>val = JObj [(''typescript'', JObj [(''configPath'', JStr ''own.json'')])], source = Configuration\<rparr>"
      "getOption OPTION_NAMES_tsConfigPath ?s = JStr ''tsconfig.json''"
    by (simp_all add: example_conf_def fromObj_def getOption_def)
  have "isDone (prepare example_env ?s)
      \<and> options (confOf (prepare example_env ?s)) OPTION_NAMES_compilerOptions
           = Some \<lparr>val = JObj (AList.update CustomizableCompilers_typescript
                         (Object_assign [(''configPath'', getOption OPTION_NAMES_tsConfigPath ?s)]
                            (propOf [(''typescript'', JObj [(''configPath'', JStr ''own.json'')])]
                               CustomizableCompilers_typescript))
                         [(''typescript'', JObj [(''configPath'', JStr ''own.json'')])]),
                    source = Configuration\<rparr>"
    using prepare_compilerOptions_value
            [where s = ?s and env = example_env
               and cps = "[(''typescript'', JObj [(''configPath'', JStr ''own.json'')])]"] s
    by simp
  then have "getOption OPTION_NAMES_compilerOptions (confOf (prepare example_env ?s))
               = JObj [(''typescript'', JObj [(''configPath'', JStr ''own.json'')])]"
    by (simp add: getOption_def propOf_def Object_assign_def)
  with s(3) show ?thesis
    by simp
qed


text \<open>
  C1, amended: the compiler options \<open>_prepareCompilerOptions\<close> works on are the
  value of the option when it is set and truthy, the default compiler options otherwise
  (the option unset, or holding a falsy value). When the \<open>tsConfigPath\<close> option holds
  a truthy path and those compiler options are an object whose typescript entry is an
  object or is missing, preparation (on a screenshots option that is unset or an object,
  so that the defaults before it do not throw) returns and leaves as typescript entry
  the shallow merge of \<open>{configPath}\<close> as base with the pre-existing typescript
  options on top: every pre-existing field keeps its value, a pre-existing
  \<open>configPath\<close> included; \<open>configPath\<close> is the path of the option only when the
  pre-existing options had none; no other key appears; the entries of the other
  compilers are as they were; and the option keeps its source (\<open>Configuration\<close> when
  it was unset).
\<close>

theorem prepare_merges_tsConfigPath:
  assumes "options s OPTION_NAMES_screenshots = None
         \<or> (\<exists>ps src'. options s OPTION_NAMES_screenshots = Some \<lparr>val = JObj ps, source = src'\<rparr>)"
      and "(case options s OPTION_NAMES_compilerOptions of
              None \<Rightarrow> getDefaultCompilerOptions env
            | Some option \<Rightarrow>
                if truthy (val option) then val option else getDefaultCompilerOptions env)
           = JObj cps"
      and "truthy (getOption OPTION_NAMES_tsConfigPath s)"
      and "map_of cps CustomizableCompilers_typescript = Some (JObj tps)
         \<or> map_of cps CustomizableCompilers_typescript = None \<and> tps = []"
  shows "isDone (prepare env s)
       \<and> (\<exists>cps' tps'.
             options (confOf (prepare env s)) OPTION_NAMES_compilerOptions
               = Some \<lparr>val = JObj cps',
                       source = (case options s OPTION_NAMES_compilerOptions of
                                   None \<Rightarrow> Configuration | Some option \<Rightarrow> source option)\<rparr>
           \<and> map_of cps' CustomizableCompilers_typescript = Some (JObj tps')
           \<and> (\<forall>k. map_of tps' k =
                  (case map_of tps k of
                     Some v \<Rightarrow> Some v
                   | None \<Rightarrow> if k = ''configPath'' then Some (getOption OPTION_NAMES_tsConfigPath s)
                             else None))
           \<and> (\<forall>c. c \<noteq> CustomizableCompilers_typescript \<longrightarrow> map_of cps' c = map_of cps c))"
proof -
  let ?p = "getOption OPTION_NAMES_tsConfigPath s"
  let ?ts = "Object_assign [(''configPath'', ?p)] (propOf cps CustomizableCompilers_typescript)"
  have "\<exists>tps'. ?ts = JObj tps'
          \<and> (\<forall>k. map_of tps' k =
                (case map_of tps k of Some v \<Rightarrow> Some v
                 | None \<Rightarrow> if k = ''configPath'' then Some ?p else None))"
    using assms(4)
  proof
    assume "map_of cps CustomizableCompilers_typescript = Some (JObj tps)"
    then have "propOf cps CustomizableCompilers_typescript = JObj tps"
      by (simp add: propOf_def)
    with map_of_Object_assign_object [of "[(''configPath'', ?p)]" tps] show ?thesis
      by (auto split: option.split)
  next
    assume "map_of cps CustomizableCompilers_typescript = None \<and> tps = []"
    then show ?thesis
      by (simp add: propOf_def Object_assign_undefined)
  qed
  then obtain tps' where tps': "?ts = JObj tps'"
      "\<forall>k. map_of tps' k =
                (case map_of tps k of Some v \<Rightarrow> Some v
                 | None \<Rightarrow> if k = ''configPath'' then Some ?p else None)"
    by blast
  from prepare_compilerOptions_value [OF assms(1-3)]
  have fin: "isDone (prepare env s)"
    and entry: "options (confOf (prepare env s)) OPTION_NAMES_compilerOptions
           = Some \<lparr>val = JObj (AList.update CustomizableCompilers_typescript ?ts cps),
                   source = (case options s OPTION_NAMES_compilerOptions of
                               None \<Rightarrow> Configuration | Some option \<Rightarrow> source option)\<rparr>"
    by simp_all
  have "map_of (AList.update CustomizableCompilers_typescript ?ts cps) CustomizableCompilers_typescript
          = Some (JObj tps')"
    by (simp add: update_conv' tps'(1))
  moreover have "\<forall>c. c \<noteq> CustomizableCompilers_typescript \<longrightarrow>
          map_of (AList.update CustomizableCompilers_typescript ?ts cps) c = map_of cps c"
    by (simp add: update_conv')
  ultimately show ?thesis
    using fin entry tps'(2) by blast
qed

text \<open>
  C1, amended, on pre-existing \<open>{strict: true}\<close> and the path
  \<open>"tsconfig.json"\<close>, where the typescript entry becomes
  \<open>{strict: true, configPath: "tsconfig.json"}\<close>; and on the path alone, without
  compiler options, where the default compiler options
  \<open>{typescript: {options: {esModuleInterop: true}}}\<close> get the path beside their
  \<open>options\<close>.
\<close>

theorem prepare_merges_tsConfigPath_witness:
  "isDone (prepare example_env
      (example_conf [(''compilerOptions'', JObj [(''typescript'', JObj [(''strict'', JBool True)])]),
                     (''tsConfigPath'', JStr ''tsconfig.json'')]))
   \<and> (\<exists>cps' tps'.
        options (confOf (prepare example_env
          (example_conf [(''compilerOptions'', JObj [(''typescript'', JObj [(''strict'', JBool True)])]),
                         (''tsConfigPath'', JStr ''tsconfig.json'')]))) OPTION_NAMES_compilerOptions
          = Some \<lparr>val = JObj cps', source = Configuration\<rparr>
      \<and> map_of cps' ''typescript'' = Some (JObj tps')
      \<and> map_of tps' = map_of [(''strict'', JBool True), (''configPath'', JStr ''tsconfig.json'')])
   \<and> isDone (prepare example_env (example_conf [(''tsConfigPath'', JStr ''tsconfig.json'')]))
   \<and> (\<exists>cps' tps'.
        options (confOf (prepare example_env (example_conf [(''tsConfigPath'', JStr ''tsconfig.json'')])))
          OPTION_NAMES_compilerOptions
          = Some \<lparr>val = JObj cps', source = Configuration\<rparr>
      \<and> map_of cps' ''typescript'' = Some (JObj tps')
      \<and> map_of tps' = map_of [(''options'', JObj [(''esModuleInterop'', JBool True)]),
                                (''configPath'', JStr ''tsconfig.json'')])"
proof -
  let ?s = "example_conf [(''compilerOptions'', JObj [(''typescript'', JObj [(''strict'', JBool True)])]),
                     (''tsConfigPath'', JStr ''tsconfig.json'')]"
  let ?u = "example_conf [(''tsConfigPath'', JStr ''tsconfig.json'')]"
  have s: "options ?s OPTION_NAMES_screenshots = None"
      "options ?s OPTION_NAMES_compilerOptions
         = Some \<lparr>val = JObj [(''typescript'', JObj [(''strict'', JBool True)])], source = Configuration\<rparr>"
      "getOption OPTION_NAMES_tsConfigPath ?s = JStr ''tsconfig.json''"
    by (simp_all add: example_conf_def fromObj_def getOption_def)
  have u: "options ?u OPTION_NAMES_screenshots = None"
      "options ?u OPTION_NAMES_compilerOptions = None"
      "getOption OPTION_NAMES_tsConfigPath ?u = JStr ''tsconfig.json''"
    by (simp_all add: example_conf_def fromObj_def getOption_def)
  have dflt: "getDefaultCompilerOptions example_env
                = JObj [(''typescript'', JObj [(''options'', JObj [(''esModuleInterop'', JBool True)])])]"
    by (simp add: example_env_def)
  \<comment> \<open>pre-existing typescript options\<close>
  have s1: "options ?s OPTION_NAMES_screenshots = None
         \<or> (\<exists>ps src'. options ?s OPTION_NAMES_screenshots = Some \<lparr>val = JObj ps, source = src'\<rparr>)"
    by (simp add: s)
  have s2: "(case options ?s OPTION_NAMES_compilerOptions of
              None \<Rightarrow> getDefaultCompilerOptions example_env
            | Some option \<Rightarrow>
                if truthy (val option) then val option else getDefaultCompilerOptions example_env)
           = JObj [(''typescript'', JObj [(''strict'', JBool True)])]"
    by (simp add: s)
  have s3: "truthy (getOption OPTION_NAMES_tsConfigPath ?s)"
    by (simp add: s)
  have s4: "map_of [(''typescript'', JObj [(''strict'', JBool True)])] CustomizableCompilers_typescript
             = Some (JObj [(''strict'', JBool True)])
         \<or> map_of [(''typescript'', JObj [(''strict'', JBool True)])] CustomizableCompilers_typescript = None
           \<and> [(''strict'', JBool True)] = []"
    by simp
  note main = prepare_merges_tsConfigPath [OF s1 s2 s3 s4]
  from main obtain cps' tps' where
      a: "options (confOf (prepare example_env ?s)) OPTION_NAMES_compilerOptions
            = Some \<lparr>val = JObj cps', source = Configuration\<rparr>"
      and b: "map_of cps' ''typescript'' = Some (JObj tps')"
      and c: "\<forall>k. map_of tps' k =
                  (case map_of [(''strict'', JBool True)] k of
                     Some v \<Rightarrow> Some v
                   | None \<Rightarrow> if k = ''configPath'' then Some (getOption OPTION_NAMES_tsConfigPath ?s)
                             else None)"
    by (auto simp add: s)
  have "map_of tps' = map_of [(''strict'', JBool True), (''configPath'', JStr ''tsconfig.json'')]"
  proof
    fix k show "map_of tps' k = map_of [(''strict'', JBool True), (''configPath'', JStr ''tsconfig.json'')] k"
      using c [rule_format, of k] by (simp add: s)
  qed
  with a b have A: "\<exists>cps' tps'.
        options (confOf (prepare example_env ?s)) OPTION_NAMES_compilerOptions
          = Some \<lparr>val = JObj cps', source = Configuration\<rparr>
      \<and> map_of cps' ''typescript'' = Some (JObj tps')
      \<and> map_of tps' = map_of [(''strict'', JBool True), (''configPath'', JStr ''tsconfig.json'')]"
    by (intro exI [of _ cps'] exI [of _ tps']) simp
  from main have A0: "isDone (prepare example_env ?s)"
    by (rule conjunct1)
  \<comment> \<open>the path alone\<close>
  have u1: "options ?u OPTION_NAMES_screenshots = None
         \<or> (\<exists>ps src'. options ?u OPTION_NAMES_screenshots = Some \<lparr>val = JObj ps, source = src'\<rparr>)"
    by (simp add: u)
  have u2: "(case options ?u OPTION_NAMES_compilerOptions of
              None \<Rightarrow> getDefaultCompilerOptions example_env
            | Some option \<Rightarrow>
                if truthy (val option) then val option else getDefaultCompilerOptions example_env)
           = JObj [(''typescript'', JObj [(''options'', JObj [(''esModuleInterop'', JBool True)])])]"
    by (simp add: u dflt)
  have u3: "truthy (getOption OPTION_NAMES_tsConfigPath ?u)"
    by (simp add: u)
  have u4: "map_of [(''typescript'', JObj [(''options'', JObj [(''esModuleInterop'', JBool True)])])]
                CustomizableCompilers_typescript
             = Some (JObj [(''options'', JObj [(''esModuleInterop'', JBool True)])])
         \<or> map_of [(''typescript'', JObj [(''options'', JObj [(''esModuleInterop'', JBool True)])])]
                CustomizableCompilers_typescript = None
           \<and> [(''options'', JObj [(''esModuleInterop'', JBool True)])] = []"
    by simp
  note alone = prepare_merges_tsConfigPath [OF u1 u2 u3 u4]
  from alone obtain dps' dts' where
      d: "options (confOf (prepare example_env ?u)) OPTION_NAMES_compilerOptions
            = Some \<lparr>val = JObj dps', source = Configuration\<rparr>"
      and e: "map_of dps' ''typescript'' = Some (JObj dts')"
      and f: "\<forall>k. map_of dts' k =
                  (case map_of [(''options'', JObj [(''esModuleInterop'', JBool True)])] k of
                     Some v \<Rightarrow> Some v
                   | None \<Rightarrow> if k = ''configPath'' then Some (getOption OPTION_NAMES_tsConfigPath ?u)
                             else None)"
    by (auto simp add: u)
  have "map_of dts' = map_of [(''options'', JObj [(''esModuleInterop'', JBool True)]),
                               (''configPath'', JStr ''tsconfig.json'')]"
  proof
    fix k show "map_of dts' k = map_of [(''options'', JObj [(''esModuleInterop'', JBool True)]),
                               (''configPath'', JStr ''tsconfig.json'')] k"
      using f [rule_format, of k] by (simp add: u)
  qed
  with d e have B: "\<exists>cps' tps'.
        options (confOf (prepare example_env ?u)) OPTION_NAMES_compilerOptions
          = Some \<lparr>val = JObj cps', source = Configuration\<rparr>
      \<and> map_of cps' ''typescript'' = Some (JObj tps')
      \<and> map_of tps' = map_of [(''options'', JObj [(''esModuleInterop'', JBool True)]),
                                (''configPath'', JStr ''tsconfig.json'')]"
    by (intro exI [of _ dps'] exI [of _ dts']) simp
  from alone have B0: "isDone (prepare example_env ?u)"
    by (rule conjunct1)
  from A0 A B0 B show ?thesis
    by (intro conjI)
qed

end
